theory Spec2Isabelle
  imports Main "HOL-Library.Sublist"
begin

section \<open>Python values and strings\<close>

text \<open>
  A Python \<open>str\<close> is modelled as a \<open>string\<close>; one \<open>char\<close> stands for one code point
  below 256. \<open>squote\<close>, \<open>dquote\<close>, \<open>backslash\<close> and \<open>newline\<close> name the characters that
  cannot be written inside a literal.
\<close>

definition squote :: char where
  "squote = CHR 0x27"

definition dquote :: char where
  "dquote = CHR 0x22"

definition backslash :: char where
  "backslash = CHR 0x5C"

definition newline :: char where
  "newline = CHR 0x0A"

text \<open>
  An attribute of a collaborator object that the source only passes to \<open>str()\<close>, to an
  f-string or to a truth test (\<open>task.progress\<close>, \<open>task.creation_date\<close>, \<open>task.end_date\<close>,
  ...): either \<open>None\<close>, or an object given by what \<open>str()\<close> returns for it and by its
  truth value.
\<close>

datatype pyval = PNone | PObj string bool

fun py_str :: "pyval \<Rightarrow> string" where
  "py_str PNone = ''None''"
| "py_str (PObj s b) = s"

fun py_bool :: "pyval \<Rightarrow> bool" where
  "py_bool PNone = False"
| "py_bool (PObj s b) = b"

text \<open>\<open>hasattr\<close>/\<open>getattr\<close>: an attribute is missing or present with a value.\<close>

datatype 'a attr = Missing | Attr 'a

fun hasattr :: "'a attr \<Rightarrow> bool" where
  "hasattr Missing = False"
| "hasattr (Attr v) = True"

fun getattr :: "'a attr \<Rightarrow> 'a \<Rightarrow> 'a" where
  "getattr Missing d = d"
| "getattr (Attr v) d = v"

text \<open>\<open>str(n)\<close> for an \<open>int\<close>: decimal digits, a minus sign for negative numbers.\<close>

definition digit_char :: "nat \<Rightarrow> char" where
  "digit_char d = ''0123456789abcdef'' ! d"

fun str_nat :: "nat \<Rightarrow> string" where
  "str_nat n = (if n < 10 then [digit_char n] else str_nat (n div 10) @ [digit_char (n mod 10)])"

definition str_int :: "int \<Rightarrow> string" where
  "str_int i = (if i < 0 then ''-'' @ str_nat (nat (- i)) else str_nat (nat i))"

section \<open>json.dumps(obj, indent=2)\<close>

text \<open>
  The values the tools serialise, and the text CPython's \<open>json\<close> encoder produces for
  them with \<open>indent=2\<close> and the other options at their defaults: items separated by a
  comma and a line break, keys by a colon and a space, two spaces per nesting level,
  \<open>[]\<close> and \<open>{}\<close> for the empty containers, dictionaries in insertion order.
\<close>

datatype json =
    JNull
  | JBool bool
  | JInt int
  | JStr string
  | JArr "json list"
  | JObj "(string \<times> json) list"

text \<open>
  \<open>py_encode_basestring_ascii\<close>: every character outside \<open>' '..'~'\<close>, the double quote
  and the backslash are escaped.
\<close>

definition escape_char :: "char \<Rightarrow> string" where
  "escape_char c =
     (let n = (of_char c :: nat) in
      if c = backslash then [backslash, backslash]
      else if c = dquote then [backslash, dquote]
      else if 0x20 \<le> n \<and> n \<le> 0x7E then [c]
      else if n = 0x08 then [backslash, CHR ''b'']
      else if n = 0x0C then [backslash, CHR ''f'']
      else if n = 0x0A then [backslash, CHR ''n'']
      else if n = 0x0D then [backslash, CHR ''r'']
      else if n = 0x09 then [backslash, CHR ''t'']
      else [backslash, CHR ''u'', CHR ''0'', CHR ''0'',
            digit_char (n div 16), digit_char (n mod 16)])"

definition encode_basestring_ascii :: "string \<Rightarrow> string" where
  "encode_basestring_ascii s = [dquote] @ concat (map escape_char s) @ [dquote]"

definition newline_indent :: "nat \<Rightarrow> string" where
  "newline_indent level = newline # replicate (2 * level) CHR '' ''"

fun join :: "string \<Rightarrow> string list \<Rightarrow> string" where
  "join sep [] = []"
| "join sep [x] = x"
| "join sep (x # y # ys) = x @ sep @ join sep (y # ys)"

fun iterencode :: "nat \<Rightarrow> json \<Rightarrow> string" where
  "iterencode level JNull = ''null''"
| "iterencode level (JBool b) = (if b then ''true'' else ''false'')"
| "iterencode level (JInt i) = str_int i"
| "iterencode level (JStr s) = encode_basestring_ascii s"
| "iterencode level (JArr xs) =
     (if xs = [] then ''[]''
      else ''['' @ newline_indent (Suc level)
           @ join ('','' @ newline_indent (Suc level)) (map (iterencode (Suc level)) xs)
           @ newline_indent level @ '']'')"
| "iterencode level (JObj kvs) =
     (if kvs = [] then ''{}''
      else ''{'' @ newline_indent (Suc level)
           @ join ('','' @ newline_indent (Suc level))
               (map (\<lambda>kv. encode_basestring_ascii (fst kv) @ '': ''
                           @ iterencode (Suc level) (snd kv)) kvs)
           @ newline_indent level @ ''}'')"

definition dumps :: "json \<Rightarrow> string" where
  "dumps obj = iterencode 0 obj"

section \<open>The collaborator: the remote platform seen through the SDK\<close>

text \<open>
  Modelled from the spec: the SDK (the \<open>qarnot\<close> package: connections, tasks, task
  status, buckets and their operations) is an external library whose code is not in the
  repository. Its objects carry the attributes the tools read, and its operations do what
  the spec's data model and operation table say of them: enumeration and retrieval by
  identifier (failing when nothing has that identifier), refresh, abort, the stdout and
  stderr accessors, file listing and download.

  Attributes that \<open>get_task_status\<close> probes with \<open>hasattr\<close>/\<open>getattr\<close> are \<open>attr\<close>
  values; an inner \<open>option\<close> is Python's \<open>None\<close>. Attributes that go into the JSON
  result as they are have the JSON type the SDK gives them (strings, integers).
\<close>

record forward =
  application_port :: int
  forwarder_host :: string
  forwarder_port :: int

text \<open>
  An entry of \<open>per_running_instance_info\<close>. The SDK keeps the active forwards of a
  running instance in the attribute \<open>active_forward\<close>. \<open>active_forwards\<close> is the name
  \<open>get_task_status\<close> probes with \<open>getattr\<close>: an object the SDK builds has no attribute
  of that name (\<open>Missing\<close>); only a stand-in for the SDK can have one.
\<close>

record instance_info =
  info_instance_id :: int
  active_forward :: "forward list"
  active_forwards :: "forward list option attr"

record running_instances_info =
  per_running_instance_info :: "instance_info list option attr"

record task_status =
  running_instances_info :: "running_instances_info option attr"

record task =
  task_uuid :: string
  task_name :: string
  task_state :: string
  task_progress :: pyval
  task_instancecount :: int
  task_running_instance_count :: int
  task_running_core_count :: int
  task_execution_time :: pyval
  task_wall_time :: pyval
  task_creation_date :: pyval
  task_end_date :: pyval
  task_status :: "task_status option attr"
  stdout_capture :: "int option \<Rightarrow> string option"
  stderr_capture :: "int option \<Rightarrow> string option"

record bucket_file =
  key :: string
  content :: string

record bucket =
  bucket_uuid :: string
  bucket_files :: "bucket_file list"

record connection =
  client_token :: string

datatype error =
    ValueError string
  | TypeError string
  | MissingTaskException string
  | MissingBucketException string
  | MissingFileException string string
  | OSError string
  | RemoteError string

text \<open>Every call made on the SDK, with its arguments, in the order it is made.\<close>

datatype sdk_call =
    Connection string
  | Tasks
  | Retrieve_task string
  | Update string bool
  | Stdout string "int option"
  | Stderr string "int option"
  | Abort string
  | Buckets
  | Retrieve_bucket string
  | List_files string
  | Get_file string string string

text \<open>
  The world a tool runs in: the remote tasks and buckets, the local files and the paths
  that cannot be written, the remote failures (network, authentication) as a function
  from a call to the error it raises, and the trace of the SDK calls made so far.
\<close>

record world =
  remote_tasks :: "task list"
  remote_buckets :: "bucket list"
  local_files :: "string \<Rightarrow> string option"
  unwritable :: "string set"
  faults :: "sdk_call \<Rightarrow> error option"
  calls :: "sdk_call list"

type_synonym 'a io = "world \<Rightarrow> (error + 'a) \<times> world"

definition return :: "'a \<Rightarrow> 'a io" where
  "return x w = (Inr x, w)"

definition raise :: "error \<Rightarrow> 'a io" where
  "raise e w = (Inl e, w)"

text \<open>Sequencing: an exception of the first computation skips the rest.\<close>

definition and_then :: "'a io \<Rightarrow> ('a \<Rightarrow> 'b io) \<Rightarrow> 'b io" where
  "and_then m f w = (case m w of (Inl e, w') \<Rightarrow> (Inl e, w') | (Inr x, w') \<Rightarrow> f x w')"

text \<open>An SDK call is recorded in the trace, then fails remotely or runs its body.\<close>

definition sdk :: "sdk_call \<Rightarrow> 'a io \<Rightarrow> 'a io" where
  "sdk c body w =
     (let w' = w\<lparr>calls := calls w @ [c]\<rparr> in
      case faults w c of Some e \<Rightarrow> (Inl e, w') | None \<Rightarrow> body w')"

definition Connection_init :: "string \<Rightarrow> connection io" where
  "Connection_init token = sdk (Connection token) (return \<lparr>client_token = token\<rparr>)"

definition conn_tasks :: "connection \<Rightarrow> task list io" where
  "conn_tasks conn = sdk Tasks (\<lambda>w. (Inr (remote_tasks w), w))"

definition lookup_task :: "string \<Rightarrow> task io" where
  "lookup_task uuid w =
     (case find (\<lambda>t. task_uuid t = uuid) (remote_tasks w) of
        None \<Rightarrow> (Inl (MissingTaskException uuid), w)
      | Some t \<Rightarrow> (Inr t, w))"

definition retrieve_task :: "connection \<Rightarrow> string \<Rightarrow> task io" where
  "retrieve_task conn uuid = sdk (Retrieve_task uuid) (lookup_task uuid)"

text \<open>\<open>task.update(flushcache)\<close> refreshes the task object from the remote platform.\<close>

definition task_update :: "task \<Rightarrow> bool \<Rightarrow> task io" where
  "task_update t flushcache = sdk (Update (task_uuid t) flushcache) (lookup_task (task_uuid t))"

text \<open>\<open>task.stdout()\<close> and \<open>task.stdout(instance_id)\<close>; likewise for stderr.\<close>

definition task_stdout :: "task \<Rightarrow> string option io" where
  "task_stdout t = sdk (Stdout (task_uuid t) None) (return (stdout_capture t None))"

definition task_stdout_of :: "task \<Rightarrow> int \<Rightarrow> string option io" where
  "task_stdout_of t i = sdk (Stdout (task_uuid t) (Some i)) (return (stdout_capture t (Some i)))"

definition task_stderr :: "task \<Rightarrow> string option io" where
  "task_stderr t = sdk (Stderr (task_uuid t) None) (return (stderr_capture t None))"

definition task_stderr_of :: "task \<Rightarrow> int \<Rightarrow> string option io" where
  "task_stderr_of t i = sdk (Stderr (task_uuid t) (Some i)) (return (stderr_capture t (Some i)))"

text \<open>
  Modelled from the spec: \<open>task.abort()\<close> is the one remote transition, of the task to
  the state Cancelled.
\<close>

definition task_abort :: "task \<Rightarrow> unit io" where
  "task_abort t =
     sdk (Abort (task_uuid t))
       (\<lambda>w. (Inr (),
              w\<lparr>remote_tasks :=
                  map (\<lambda>r. if task_uuid r = task_uuid t then r\<lparr>task_state := ''Cancelled''\<rparr> else r)
                    (remote_tasks w)\<rparr>))"

definition conn_buckets :: "connection \<Rightarrow> bucket list io" where
  "conn_buckets conn = sdk Buckets (\<lambda>w. (Inr (remote_buckets w), w))"

definition retrieve_bucket :: "connection \<Rightarrow> string \<Rightarrow> bucket io" where
  "retrieve_bucket conn bucket_name =
     sdk (Retrieve_bucket bucket_name)
       (\<lambda>w. case find (\<lambda>b. bucket_uuid b = bucket_name) (remote_buckets w) of
               None \<Rightarrow> (Inl (MissingBucketException bucket_name), w)
             | Some b \<Rightarrow> (Inr b, w))"

definition bucket_list_files :: "bucket \<Rightarrow> bucket_file list io" where
  "bucket_list_files b = sdk (List_files (bucket_uuid b)) (return (bucket_files b))"

text \<open>
  Modelled from the spec: \<open>bucket.get_file(remote, local)\<close> copies the named remote file
  to the local path, and fails if the remote file is missing or the local path cannot be
  written.
\<close>

definition bucket_get_file :: "bucket \<Rightarrow> string \<Rightarrow> string \<Rightarrow> unit io" where
  "bucket_get_file b remote local =
     sdk (Get_file (bucket_uuid b) remote local)
       (\<lambda>w. case find (\<lambda>f. key f = remote) (bucket_files b) of
               None \<Rightarrow> (Inl (MissingFileException (bucket_uuid b) remote), w)
             | Some f \<Rightarrow>
                 if local \<in> unwritable w then (Inl (OSError local), w)
                 else (Inr (), w\<lparr>local_files := (local_files w)(local \<mapsto> content f)\<rparr>))"

section \<open>The server: mcp_server.py\<close>

subsection \<open>Startup\<close>

text \<open>
  \<open>load_dotenv()\<close> of the \<open>python-dotenv\<close> package, with its defaults: the variables
  of the \<open>.env\<close> file (no file: the empty map) are added to the process environment; a
  variable the environment already has, even empty, is kept (\<open>override=False\<close>).
\<close>

definition load_dotenv :: "(string \<rightharpoonup> string) \<Rightarrow> (string \<rightharpoonup> string) \<Rightarrow> (string \<rightharpoonup> string)" where
  "load_dotenv dotenv environ = dotenv ++ environ"

record server =
  QARNOT_TOKEN :: string

text \<open>Lines 9 to 13: the module either raises or holds the token from then on.\<close>

definition startup :: "(string \<rightharpoonup> string) \<Rightarrow> (string \<rightharpoonup> string) \<Rightarrow> error + server" where
  "startup dotenv environ =
     (case load_dotenv dotenv environ ''QARNOT_TOKEN'' of
        None \<Rightarrow> Inl (ValueError ''QARNOT_TOKEN environment variable is required'')
      | Some token \<Rightarrow>
          if token = [] then Inl (ValueError ''QARNOT_TOKEN environment variable is required'')
          else Inr \<lparr>QARNOT_TOKEN = token\<rparr>)"

definition get_connection :: "server \<Rightarrow> connection io" where
  "get_connection srv = Connection_init (QARNOT_TOKEN srv)"

subsection \<open>list_tasks\<close>

definition task_summary :: "task \<Rightarrow> json" where
  "task_summary t = JObj
     [(''uuid'', JStr (task_uuid t)),
      (''name'', JStr (task_name t)),
      (''state'', JStr (task_state t)),
      (''progress'', JStr (py_str (task_progress t) @ ''%'')),
      (''instance_count'', JInt (task_instancecount t)),
      (''running_instances'', JInt (task_running_instance_count t)),
      (''creation_date'', JStr (py_str (task_creation_date t))),
      (''end_date'',
         JStr (if py_bool (task_end_date t) then py_str (task_end_date t) else ''N/A''))]"

text \<open>The loop \<open>for task in tasks: result.append({...})\<close>, \<open>result\<close> as accumulator.\<close>

fun list_tasks_loop :: "task list \<Rightarrow> json list \<Rightarrow> json list" where
  "list_tasks_loop [] result = result"
| "list_tasks_loop (t # tasks) result = list_tasks_loop tasks (result @ [task_summary t])"

definition list_tasks :: "server \<Rightarrow> string io" where
  "list_tasks srv =
     and_then (get_connection srv) (\<lambda>conn.
     and_then (conn_tasks conn) (\<lambda>tasks.
     return (dumps (JArr (list_tasks_loop tasks [])))))"

subsection \<open>get_task_status\<close>

definition forward_descriptor :: "instance_info \<Rightarrow> forward \<Rightarrow> json" where
  "forward_descriptor instance fwd = JObj
     [(''instance_id'', JInt (info_instance_id instance)),
      (''app_port'', JInt (application_port fwd)),
      (''host'', JStr (forwarder_host fwd)),
      (''port'', JInt (forwarder_port fwd)),
      (''ssh_command'',
         if application_port fwd = 22
         then JStr (''ssh -p '' @ str_int (forwarder_port fwd) @ '' user@'' @ forwarder_host fwd)
         else JNull)]"

text \<open>\<open>TypeError: 'NoneType' object is not iterable\<close>, raised by a loop over \<open>None\<close>.\<close>

definition not_iterable :: error where
  "not_iterable = TypeError ([squote] @ ''NoneType'' @ [squote] @ '' object is not iterable'')"

text \<open>The inner loop over \<open>active_forwards\<close> and the outer loop over the instances.\<close>

fun scan_forwards :: "instance_info \<Rightarrow> forward list \<Rightarrow> json list \<Rightarrow> json list" where
  "scan_forwards instance [] ssh_info = ssh_info"
| "scan_forwards instance (fwd # fwds) ssh_info =
     scan_forwards instance fwds (ssh_info @ [forward_descriptor instance fwd])"

fun scan_instances :: "instance_info list \<Rightarrow> json list \<Rightarrow> error + json list" where
  "scan_instances [] ssh_info = Inr ssh_info"
| "scan_instances (instance # instances) ssh_info =
     (case getattr (active_forwards instance) (Some []) of
        None \<Rightarrow> Inl not_iterable
      | Some fwds \<Rightarrow> scan_instances instances (scan_forwards instance fwds ssh_info))"

definition collect_ssh_info :: "task \<Rightarrow> error + json list" where
  "collect_ssh_info t =
     (if hasattr (task_status t) \<and> getattr (task_status t) None \<noteq> None then
        (case getattr (running_instances_info (the (getattr (task_status t) None))) None of
           None \<Rightarrow> Inr []
         | Some running_info \<Rightarrow>
             (case getattr (per_running_instance_info running_info) (Some []) of
                None \<Rightarrow> Inl not_iterable
              | Some instances \<Rightarrow> scan_instances instances []))
      else Inr [])"

definition status_fields :: "task \<Rightarrow> json list \<Rightarrow> (string \<times> json) list" where
  "status_fields t ssh_info =
     [(''uuid'', JStr (task_uuid t)),
      (''name'', JStr (task_name t)),
      (''state'', JStr (task_state t)),
      (''progress'', JStr (py_str (task_progress t) @ ''%'')),
      (''instance_count'', JInt (task_instancecount t)),
      (''running_instances'', JInt (task_running_instance_count t)),
      (''running_cores'', JInt (task_running_core_count t)),
      (''execution_time'', JStr (py_str (task_execution_time t))),
      (''wall_time'', JStr (py_str (task_wall_time t))),
      (''creation_date'', JStr (py_str (task_creation_date t))),
      (''end_date'',
         JStr (if py_bool (task_end_date t) then py_str (task_end_date t) else ''N/A'')),
      (''ssh_connections'',
         if ssh_info \<noteq> [] then JArr ssh_info else JStr ''No active SSH forwards'')]"

definition get_task_status :: "server \<Rightarrow> string \<Rightarrow> string io" where
  "get_task_status srv uuid =
     and_then (get_connection srv) (\<lambda>conn.
     and_then (retrieve_task conn uuid) (\<lambda>t0.
     and_then (task_update t0 True) (\<lambda>t.
     (case collect_ssh_info t of
        Inl e \<Rightarrow> raise e
      | Inr ssh_info \<Rightarrow> return (dumps (JObj (status_fields t ssh_info)))))))"

subsection \<open>get_task_stdout, get_task_stderr\<close>

definition get_task_stdout :: "server \<Rightarrow> string \<Rightarrow> int option \<Rightarrow> string io" where
  "get_task_stdout srv uuid instance_id =
     and_then (get_connection srv) (\<lambda>conn.
     and_then (retrieve_task conn uuid) (\<lambda>t.
     and_then (if instance_id \<noteq> None then task_stdout_of t (the instance_id) else task_stdout t)
       (\<lambda>stdout.
     return (case stdout of None \<Rightarrow> ''(no output)''
             | Some s \<Rightarrow> if s = [] then ''(no output)'' else s))))"

definition get_task_stderr :: "server \<Rightarrow> string \<Rightarrow> int option \<Rightarrow> string io" where
  "get_task_stderr srv uuid instance_id =
     and_then (get_connection srv) (\<lambda>conn.
     and_then (retrieve_task conn uuid) (\<lambda>t.
     and_then (if instance_id \<noteq> None then task_stderr_of t (the instance_id) else task_stderr t)
       (\<lambda>stderr.
     return (case stderr of None \<Rightarrow> ''(no error output)''
             | Some s \<Rightarrow> if s = [] then ''(no error output)'' else s))))"

subsection \<open>cancel_task\<close>

definition cancel_task :: "server \<Rightarrow> string \<Rightarrow> string io" where
  "cancel_task srv uuid =
     and_then (get_connection srv) (\<lambda>conn.
     and_then (retrieve_task conn uuid) (\<lambda>t.
     if task_state t \<in> set [''Cancelled'', ''Success'', ''Failure'']
     then return (''Task '' @ uuid @ '' is already in state '' @ [squote] @ task_state t
                  @ [squote] @ '' and cannot be cancelled.'')
     else and_then (task_abort t) (\<lambda>_.
          return (''Task '' @ uuid @ '' has been cancelled.''))))"

subsection \<open>list_buckets, list_bucket_files, download_result\<close>

fun list_buckets_loop :: "bucket list \<Rightarrow> json list \<Rightarrow> json list" where
  "list_buckets_loop [] result = result"
| "list_buckets_loop (b # buckets) result =
     list_buckets_loop buckets (result @ [JObj [(''name'', JStr (bucket_uuid b))]])"

definition list_buckets :: "server \<Rightarrow> string io" where
  "list_buckets srv =
     and_then (get_connection srv) (\<lambda>conn.
     and_then (conn_buckets conn) (\<lambda>buckets.
     (let result = list_buckets_loop buckets [] in
      return (if result \<noteq> [] then dumps (JArr result) else ''No buckets found.''))))"

definition list_bucket_files :: "server \<Rightarrow> string \<Rightarrow> string io" where
  "list_bucket_files srv bucket_name =
     and_then (get_connection srv) (\<lambda>conn.
     and_then (retrieve_bucket conn bucket_name) (\<lambda>b.
     and_then (bucket_list_files b) (\<lambda>fs.
     (let files = map key fs in
      return (if files \<noteq> [] then dumps (JArr (map JStr files)) else ''No files in bucket.'')))))"

definition download_result :: "server \<Rightarrow> string \<Rightarrow> string \<Rightarrow> string \<Rightarrow> string io" where
  "download_result srv bucket_name remote_path local_path =
     and_then (get_connection srv) (\<lambda>conn.
     and_then (retrieve_bucket conn bucket_name) (\<lambda>b.
     and_then (bucket_get_file b remote_path local_path) (\<lambda>_.
     return (''Downloaded '' @ [squote] @ remote_path @ [squote] @ '' from '' @ [squote]
             @ bucket_name @ [squote] @ '' to '' @ [squote] @ local_path @ [squote]))))"

subsection \<open>The process: startup, then the host's tool calls\<close>

datatype tool_call =
    List_tasks
  | Get_task_status string
  | Get_task_stdout string "int option"
  | Get_task_stderr string "int option"
  | Cancel_task string
  | List_buckets
  | List_bucket_files string
  | Download_result string string string

fun call_tool :: "server \<Rightarrow> tool_call \<Rightarrow> string io" where
  "call_tool srv List_tasks = list_tasks srv"
| "call_tool srv (Get_task_status uuid) = get_task_status srv uuid"
| "call_tool srv (Get_task_stdout uuid instance_id) = get_task_stdout srv uuid instance_id"
| "call_tool srv (Get_task_stderr uuid instance_id) = get_task_stderr srv uuid instance_id"
| "call_tool srv (Cancel_task uuid) = cancel_task srv uuid"
| "call_tool srv List_buckets = list_buckets srv"
| "call_tool srv (List_bucket_files bucket_name) = list_bucket_files srv bucket_name"
| "call_tool srv (Download_result bucket_name remote_path local_path) =
     download_result srv bucket_name remote_path local_path"

text \<open>\<open>mcp.run()\<close>: the tool calls of the host are answered one after the other.\<close>

fun serve :: "server \<Rightarrow> tool_call list \<Rightarrow> world \<Rightarrow> (error + string) list \<times> world" where
  "serve srv [] w = ([], w)"
| "serve srv (c # cs) w =
     (case call_tool srv c w of (r, w') \<Rightarrow>
        (case serve srv cs w' of (rs, w'') \<Rightarrow> (r # rs, w'')))"

text \<open>
  The whole module: when startup raises, nothing after line 13 runs, so no tool is
  registered and no call is answered.
\<close>

definition main :: "(string \<rightharpoonup> string) \<Rightarrow> (string \<rightharpoonup> string) \<Rightarrow> tool_call list \<Rightarrow> world
    \<Rightarrow> (error + (error + string) list) \<times> world" where
  "main dotenv environ requests w =
     (case startup dotenv environ of
        Inl e \<Rightarrow> (Inl e, w)
      | Inr srv \<Rightarrow> (case serve srv requests w of (rs, w') \<Rightarrow> (Inr rs, w')))"

section \<open>Notions the properties are stated with\<close>

text \<open>The uuids of the tasks that \<open>abort\<close> was called on, in order.\<close>

definition aborts :: "sdk_call list \<Rightarrow> string list" where
  "aborts cs = concat (map (\<lambda>c. case c of Abort u \<Rightarrow> [u] | _ \<Rightarrow> []) cs)"

text \<open>The fields of a JSON object, and the value of one field.\<close>

fun obj_fields :: "json \<Rightarrow> (string \<times> json) list" where
  "obj_fields (JObj kvs) = kvs"
| "obj_fields v = []"

definition field :: "json \<Rightarrow> string \<Rightarrow> json option" where
  "field v k = map_of (obj_fields v) k"

text \<open>
  The running instances a task's status lists; where an attribute on the way is missing
  or \<open>None\<close>, none.
\<close>

definition instances_of :: "task \<Rightarrow> instance_info list" where
  "instances_of t =
     (case task_status t of
        Attr (Some status) \<Rightarrow>
          (case running_instances_info status of
             Attr (Some running_info) \<Rightarrow>
               (case per_running_instance_info running_info of
                  Attr (Some instances) \<Rightarrow> instances
                | _ \<Rightarrow> [])
           | _ \<Rightarrow> [])
      | _ \<Rightarrow> [])"

text \<open>
  The active forwards the running instances report: those the SDK holds for them, in
  \<open>active_forward\<close>, each paired with its instance.
\<close>

definition reported_forwards :: "task \<Rightarrow> (instance_info \<times> forward) list" where
  "reported_forwards t =
     concat (map (\<lambda>instance. map (Pair instance) (active_forward instance)) (instances_of t))"

text \<open>
  What is found under the name the tool probes, \<open>active_forwards\<close>: the list there,
  nothing where the attribute is missing or \<open>None\<close>.
\<close>

definition probed_forwards_of :: "instance_info \<Rightarrow> forward list" where
  "probed_forwards_of instance =
     (case active_forwards instance of Attr (Some fwds) \<Rightarrow> fwds | _ \<Rightarrow> [])"

definition probed_forwards :: "task \<Rightarrow> (instance_info \<times> forward) list" where
  "probed_forwards t =
     concat (map (\<lambda>instance. map (Pair instance) (probed_forwards_of instance))
               (instances_of t))"

text \<open>
  A task without forward information: the status is missing or \<open>None\<close>, or
  \<open>running_instances_info\<close> is, or \<open>per_running_instance_info\<close> is missing, or every
  instance listed has \<open>active_forwards\<close> missing or empty.
\<close>

definition lacks_forward_info :: "task \<Rightarrow> bool" where
  "lacks_forward_info t =
     (case task_status t of
        Missing \<Rightarrow> True
      | Attr None \<Rightarrow> True
      | Attr (Some status) \<Rightarrow>
          (case running_instances_info status of
             Missing \<Rightarrow> True
           | Attr None \<Rightarrow> True
           | Attr (Some running_info) \<Rightarrow>
               (case per_running_instance_info running_info of
                  Missing \<Rightarrow> True
                | Attr None \<Rightarrow> False
                | Attr (Some instances) \<Rightarrow>
                    list_all (\<lambda>instance. active_forwards instance = Missing
                                \<or> active_forwards instance = Attr (Some [])) instances)))"

text \<open>
  No list on the way is \<open>None\<close>: \<open>per_running_instance_info\<close>, where the status
  leads to it, and \<open>active_forwards\<close> of every instance listed are missing or lists.
\<close>

definition no_list_is_None :: "task \<Rightarrow> bool" where
  "no_list_is_None t =
     (case task_status t of
        Attr (Some status) \<Rightarrow>
          (case running_instances_info status of
             Attr (Some running_info) \<Rightarrow>
               (case per_running_instance_info running_info of
                  Missing \<Rightarrow> True
                | Attr None \<Rightarrow> False
                | Attr (Some instances) \<Rightarrow>
                    list_all (\<lambda>instance. active_forwards instance \<noteq> Attr None) instances)
           | _ \<Rightarrow> True)
      | _ \<Rightarrow> True)"

text \<open>
  The tokens of the connections constructed in a trace, in order; and a computation that
  constructs none, whatever it calls.
\<close>

definition connection_tokens :: "sdk_call list \<Rightarrow> string list" where
  "connection_tokens cs = concat (map (\<lambda>c. case c of Connection token \<Rightarrow> [token] | _ \<Rightarrow> []) cs)"

definition no_connection :: "'a io \<Rightarrow> bool" where
  "no_connection m = (\<forall>w. \<exists>cs. calls (snd (m w)) = calls w @ cs \<and> connection_tokens cs = [])"

section \<open>A small world to run the tools in\<close>

definition example_server :: server where
  "example_server = \<lparr>QARNOT_TOKEN = ''secret''\<rparr>"

definition example_ssh_forward :: forward where
  "example_ssh_forward =
     \<lparr>application_port = 22, forwarder_host = ''fwd.example.org'', forwarder_port = 2222\<rparr>"

definition example_web_forward :: forward where
  "example_web_forward =
     \<lparr>application_port = 8080, forwarder_host = ''fwd.example.org'', forwarder_port = 18080\<rparr>"

text \<open>
  Two running instances as the SDK builds them: the first has an SSH forward and a web
  forward, the second none.
\<close>

definition example_instance :: instance_info where
  "example_instance =
     \<lparr>info_instance_id = 0,
      active_forward = [example_ssh_forward, example_web_forward],
      active_forwards = Missing\<rparr>"

definition example_idle_instance :: instance_info where
  "example_idle_instance =
     \<lparr>info_instance_id = 1, active_forward = [], active_forwards = Missing\<rparr>"

definition example_status :: task_status where
  "example_status =
     \<lparr>running_instances_info = Attr (Some
        \<lparr>per_running_instance_info = Attr (Some [example_instance, example_idle_instance])\<rparr>)\<rparr>"

definition example_task :: "string \<Rightarrow> string \<Rightarrow> task_status option attr \<Rightarrow> task" where
  "example_task uuid st status =
     \<lparr>task_uuid = uuid, task_name = ''job'', task_state = st,
      task_progress = PObj ''50.0'' True, task_instancecount = 2,
      task_running_instance_count = 2, task_running_core_count = 8,
      task_execution_time = PObj ''00:01:00'' True, task_wall_time = PObj ''00:02:00'' True,
      task_creation_date = PObj ''2024-01-01 10:00:00'' True, task_end_date = PNone,
      task_status = status,
      stdout_capture = (\<lambda>i. if i = None then Some ''all'' else if i = Some 0 then Some ''zero'' else None),
      stderr_capture = (\<lambda>i. if i = Some 0 then Some ''oops'' else None)\<rparr>"

definition example_bucket :: bucket where
  "example_bucket =
     \<lparr>bucket_uuid = ''results'',
      bucket_files = [\<lparr>key = ''out/log.txt'', content = ''done''\<rparr>]\<rparr>"

definition example_world :: world where
  "example_world =
     \<lparr>remote_tasks = [example_task ''t-run'' ''FullyExecuting'' (Attr (Some example_status)),
                      example_task ''t-done'' ''Success'' Missing],
      remote_buckets = [example_bucket],
      local_files = (\<lambda>p. None),
      unwritable = {},
      faults = (\<lambda>c. None),
      calls = []\<rparr>"

text \<open>A bucket without files; a world with no bucket, and one with the empty bucket only.\<close>

definition example_empty_bucket :: bucket where
  "example_empty_bucket = \<lparr>bucket_uuid = ''empty'', bucket_files = []\<rparr>"

definition example_bare_world :: world where
  "example_bare_world = example_world\<lparr>remote_buckets := []\<rparr>"

definition example_spare_world :: world where
  "example_spare_world = example_world\<lparr>remote_buckets := [example_empty_bucket]\<rparr>"

text \<open>
  A process environment without the token, one with it, and a \<open>.env\<close> file with a
  token of its own.
\<close>

definition empty_environ :: "string \<rightharpoonup> string" where
  "empty_environ = Map.empty"

definition example_environ :: "string \<rightharpoonup> string" where
  "example_environ = [''QARNOT_TOKEN'' \<mapsto> ''secret'']"

definition example_dotenv :: "string \<rightharpoonup> string" where
  "example_dotenv = [''QARNOT_TOKEN'' \<mapsto> ''from-file'']"

section \<open>The SDK calls, step by step\<close>

lemmas example_defs = example_server_def example_ssh_forward_def example_web_forward_def
  example_instance_def example_idle_instance_def example_status_def example_task_def
  example_bucket_def example_world_def

lemma sdk_ok: "faults w c = None \<Longrightarrow> sdk c body w = body (w\<lparr>calls := calls w @ [c]\<rparr>)"
  by (simp add: sdk_def)

lemma sdk_fault: "faults w c = Some e \<Longrightarrow> sdk c body w = (Inl e, w\<lparr>calls := calls w @ [c]\<rparr>)"
  by (simp add: sdk_def)

lemma get_connection_ok:
  "faults w (Connection (QARNOT_TOKEN srv)) = None \<Longrightarrow>
   get_connection srv w =
     (Inr \<lparr>client_token = QARNOT_TOKEN srv\<rparr>, w\<lparr>calls := calls w @ [Connection (QARNOT_TOKEN srv)]\<rparr>)"
  by (simp add: get_connection_def Connection_init_def sdk_ok return_def)

lemma retrieve_task_ok:
  "faults w (Retrieve_task uuid) = None \<Longrightarrow>
   find (\<lambda>t. task_uuid t = uuid) (remote_tasks w) = Some t \<Longrightarrow>
   retrieve_task conn uuid w = (Inr t, w\<lparr>calls := calls w @ [Retrieve_task uuid]\<rparr>)"
  by (simp add: retrieve_task_def sdk_ok lookup_task_def)

lemma find_task_uuid: "find (\<lambda>t. task_uuid t = uuid) ts = Some t \<Longrightarrow> task_uuid t = uuid"
  by (auto simp: find_Some_iff)

section \<open>cancel_task\<close>

text \<open>
  Claim C1. When the task found under \<open>uuid\<close> is in state Cancelled, Success or Failure,
  \<open>cancel_task\<close> returns the message "Task <uuid> is already in state '<state>' and
  cannot be cancelled.", which contains the state verbatim; it makes the two calls that
  fetch the task and no other, so \<open>abort\<close> is not invoked, and the remote tasks are
  what they were.
\<close>

theorem cancel_task_terminal:
  assumes conn: "faults w (Connection (QARNOT_TOKEN srv)) = None"
    and retr: "faults w (Retrieve_task uuid) = None"
    and found: "find (\<lambda>t. task_uuid t = uuid) (remote_tasks w) = Some t"
    and terminal: "task_state t = ''Cancelled'' \<or> task_state t = ''Success'' \<or> task_state t = ''Failure''"
  shows "cancel_task srv uuid w =
           (Inr (''Task '' @ uuid @ '' is already in state '' @ [squote] @ task_state t @ [squote]
                 @ '' and cannot be cancelled.''),
            w\<lparr>calls := calls w @ [Connection (QARNOT_TOKEN srv), Retrieve_task uuid]\<rparr>)
       \<and> sublist (task_state t) (projr (fst (cancel_task srv uuid w)))
       \<and> aborts (calls (snd (cancel_task srv uuid w))) = aborts (calls w)
       \<and> remote_tasks (snd (cancel_task srv uuid w)) = remote_tasks w"
proof -
  let ?w1 = "w\<lparr>calls := calls w @ [Connection (QARNOT_TOKEN srv)]\<rparr>"
  have c: "get_connection srv w = (Inr \<lparr>client_token = QARNOT_TOKEN srv\<rparr>, ?w1)"
    using conn by (rule get_connection_ok)
  have r: "retrieve_task \<lparr>client_token = QARNOT_TOKEN srv\<rparr> uuid ?w1
             = (Inr t, ?w1\<lparr>calls := calls ?w1 @ [Retrieve_task uuid]\<rparr>)"
    using retr found by (intro retrieve_task_ok) simp_all
  have run: "cancel_task srv uuid w =
           (Inr (''Task '' @ uuid @ '' is already in state '' @ [squote] @ task_state t @ [squote]
                 @ '' and cannot be cancelled.''),
            w\<lparr>calls := calls w @ [Connection (QARNOT_TOKEN srv), Retrieve_task uuid]\<rparr>)"
    using terminal by (auto simp: cancel_task_def and_then_def c r return_def)
  have sub: "sublist (task_state t) (''Task '' @ uuid @ '' is already in state '' @ [squote] @ task_state t @ [squote]
                 @ '' and cannot be cancelled.'')"
    unfolding sublist_def
    by (rule exI[of _ "''Task '' @ uuid @ '' is already in state '' @ [squote]"],
        rule exI[of _ "[squote] @ '' and cannot be cancelled.''"]) simp
  show ?thesis using sub by (simp add: run aborts_def)
qed

text \<open>The finished task of the example world.\<close>

theorem cancel_task_terminal_witness:
  "fst (cancel_task example_server ''t-done'' example_world)
     = Inr (''Task t-done is already in state '' @ [squote] @ ''Success'' @ [squote]
            @ '' and cannot be cancelled.'')
   \<and> aborts (calls (snd (cancel_task example_server ''t-done'' example_world))) = []"
  using cancel_task_terminal [of example_world example_server "''t-done''"
      "example_task ''t-done'' ''Success'' Missing"]
  by (simp add: example_defs aborts_def)

lemma task_abort_ok:
  "faults w (Abort (task_uuid t)) = None \<Longrightarrow>
   task_abort t w =
     (Inr (),
      w\<lparr>calls := calls w @ [Abort (task_uuid t)],
        remote_tasks :=
          map (\<lambda>r. if task_uuid r = task_uuid t then r\<lparr>task_state := ''Cancelled''\<rparr> else r)
            (remote_tasks w)\<rparr>)"
  by (simp add: task_abort_def sdk_ok)

lemma aborts_append: "aborts (xs @ ys) = aborts xs @ aborts ys"
  by (simp add: aborts_def)

text \<open>
  Claim C3. When the task found under \<open>uuid\<close> is in none of the three terminal states
  and the abort request goes through, \<open>cancel_task\<close> calls \<open>abort\<close> on that task exactly
  once, after the two calls that fetch it, and returns "Task <uuid> has been cancelled.",
  which contains the uuid.
\<close>

theorem cancel_task_aborts_once:
  assumes conn: "faults w (Connection (QARNOT_TOKEN srv)) = None"
    and retr: "faults w (Retrieve_task uuid) = None"
    and abrt: "faults w (Abort uuid) = None"
    and found: "find (\<lambda>t. task_uuid t = uuid) (remote_tasks w) = Some t"
    and live: "task_state t \<noteq> ''Cancelled'' \<and> task_state t \<noteq> ''Success'' \<and> task_state t \<noteq> ''Failure''"
  shows "fst (cancel_task srv uuid w) = Inr (''Task '' @ uuid @ '' has been cancelled.'')
       \<and> sublist uuid (''Task '' @ uuid @ '' has been cancelled.'')
       \<and> calls (snd (cancel_task srv uuid w))
           = calls w @ [Connection (QARNOT_TOKEN srv), Retrieve_task uuid, Abort uuid]
       \<and> aborts (calls (snd (cancel_task srv uuid w))) = aborts (calls w) @ [uuid]"
proof -
  let ?w1 = "w\<lparr>calls := calls w @ [Connection (QARNOT_TOKEN srv)]\<rparr>"
  let ?w2 = "w\<lparr>calls := calls w @ [Connection (QARNOT_TOKEN srv), Retrieve_task uuid]\<rparr>"
  have u: "task_uuid t = uuid"
    using found by (rule find_task_uuid)
  have c: "get_connection srv w = (Inr \<lparr>client_token = QARNOT_TOKEN srv\<rparr>, ?w1)"
    using conn by (rule get_connection_ok)
  have r: "retrieve_task \<lparr>client_token = QARNOT_TOKEN srv\<rparr> uuid ?w1 = (Inr t, ?w2)"
    using retr found retrieve_task_ok [of ?w1 uuid t] by simp
  have a: "task_abort t ?w2 =
     (Inr (),
      ?w2\<lparr>calls := calls ?w2 @ [Abort uuid],
        remote_tasks :=
          map (\<lambda>r. if task_uuid r = uuid then r\<lparr>task_state := ''Cancelled''\<rparr> else r)
            (remote_tasks ?w2)\<rparr>)"
    using abrt task_abort_ok [of ?w2 t] by (simp add: u)
  have run: "cancel_task srv uuid w =
     (Inr (''Task '' @ uuid @ '' has been cancelled.''),
      ?w2\<lparr>calls := calls ?w2 @ [Abort uuid],
        remote_tasks :=
          map (\<lambda>r. if task_uuid r = uuid then r\<lparr>task_state := ''Cancelled''\<rparr> else r)
            (remote_tasks ?w2)\<rparr>)"
    using live by (simp add: cancel_task_def and_then_def c r a return_def)
  have sub: "sublist uuid (''Task '' @ uuid @ '' has been cancelled.'')"
    unfolding sublist_def
    by (rule exI[of _ "''Task ''"], rule exI[of _ "'' has been cancelled.''"]) simp
  show ?thesis using sub by (simp add: run aborts_append) (simp add: aborts_def)
qed

text \<open>The running task of the example world.\<close>

theorem cancel_task_aborts_once_witness:
  "fst (cancel_task example_server ''t-run'' example_world) = Inr ''Task t-run has been cancelled.''
   \<and> aborts (calls (snd (cancel_task example_server ''t-run'' example_world))) = [''t-run'']"
  using cancel_task_aborts_once [of example_world example_server "''t-run''"
      "example_task ''t-run'' ''FullyExecuting'' (Attr (Some example_status))"]
  by (simp add: example_defs aborts_def)

text \<open>
  When the abort request itself fails remotely, \<open>abort\<close> has still been called once and
  the error is what \<open>cancel_task\<close> raises.
\<close>

lemma cancel_task_abort_error:
  assumes conn: "faults w (Connection (QARNOT_TOKEN srv)) = None"
    and retr: "faults w (Retrieve_task uuid) = None"
    and abrt: "faults w (Abort uuid) = Some e"
    and found: "find (\<lambda>t. task_uuid t = uuid) (remote_tasks w) = Some t"
    and live: "task_state t \<noteq> ''Cancelled'' \<and> task_state t \<noteq> ''Success'' \<and> task_state t \<noteq> ''Failure''"
  shows "cancel_task srv uuid w =
     (Inl e, w\<lparr>calls := calls w @ [Connection (QARNOT_TOKEN srv), Retrieve_task uuid, Abort uuid]\<rparr>)"
proof -
  let ?w1 = "w\<lparr>calls := calls w @ [Connection (QARNOT_TOKEN srv)]\<rparr>"
  let ?w2 = "w\<lparr>calls := calls w @ [Connection (QARNOT_TOKEN srv), Retrieve_task uuid]\<rparr>"
  have u: "task_uuid t = uuid"
    using found by (rule find_task_uuid)
  have c: "get_connection srv w = (Inr \<lparr>client_token = QARNOT_TOKEN srv\<rparr>, ?w1)"
    using conn by (rule get_connection_ok)
  have r: "retrieve_task \<lparr>client_token = QARNOT_TOKEN srv\<rparr> uuid ?w1 = (Inr t, ?w2)"
    using retr found retrieve_task_ok [of ?w1 uuid t] by simp
  have a: "task_abort t ?w2 = (Inl e, ?w2\<lparr>calls := calls ?w2 @ [Abort uuid]\<rparr>)"
    using abrt by (simp add: task_abort_def sdk_fault u)
  show ?thesis
    using live by (simp add: cancel_task_def and_then_def c r a)
qed

section \<open>list_tasks\<close>

lemma list_tasks_loop_eq: "list_tasks_loop tasks result = result @ map task_summary tasks"
  by (induction tasks arbitrary: result) simp_all

lemma conn_tasks_ok:
  "faults w Tasks = None \<Longrightarrow>
   conn_tasks conn w = (Inr (remote_tasks w), w\<lparr>calls := calls w @ [Tasks]\<rparr>)"
  by (simp add: conn_tasks_def sdk_ok)

lemma list_tasks_run:
  assumes conn: "faults w (Connection (QARNOT_TOKEN srv)) = None"
    and tasks: "faults w Tasks = None"
  shows "list_tasks srv w =
     (Inr (dumps (JArr (map task_summary (remote_tasks w)))),
      w\<lparr>calls := calls w @ [Connection (QARNOT_TOKEN srv), Tasks]\<rparr>)"
proof -
  let ?w1 = "w\<lparr>calls := calls w @ [Connection (QARNOT_TOKEN srv)]\<rparr>"
  have c: "get_connection srv w = (Inr \<lparr>client_token = QARNOT_TOKEN srv\<rparr>, ?w1)"
    using conn by (rule get_connection_ok)
  have t: "conn_tasks \<lparr>client_token = QARNOT_TOKEN srv\<rparr> ?w1
             = (Inr (remote_tasks w), w\<lparr>calls := calls w @ [Connection (QARNOT_TOKEN srv), Tasks]\<rparr>)"
    using tasks conn_tasks_ok [of ?w1] by simp
  show ?thesis
    by (simp add: list_tasks_def and_then_def c t return_def list_tasks_loop_eq)
qed

lemma dumps_empty_array: "dumps (JArr []) = ''[]''"
  by (simp add: dumps_def)

text \<open>
  Claim C5. When the connection and the task listing succeed, \<open>list_tasks\<close> returns the
  JSON text of an array with one object per task, in order; every object has exactly the
  eight fields uuid, name, state, progress, instance_count, running_instances,
  creation_date and end_date; \<open>end_date\<close> is the string "N/A" when the task's end date
  is \<open>None\<close>; and for zero tasks the text is \<open>[]\<close>.
\<close>

theorem list_tasks_array:
  assumes conn: "faults w (Connection (QARNOT_TOKEN srv)) = None"
    and tasks: "faults w Tasks = None"
  shows "(remote_tasks w = [] \<longrightarrow> fst (list_tasks srv w) = Inr ''[]'')
       \<and> (\<exists>objs. fst (list_tasks srv w) = Inr (dumps (JArr objs))
              \<and> length objs = length (remote_tasks w)
              \<and> (\<forall>i < length objs.
                    map fst (obj_fields (objs ! i)) =
                      [''uuid'', ''name'', ''state'', ''progress'', ''instance_count'',
                       ''running_instances'', ''creation_date'', ''end_date'']
                  \<and> field (objs ! i) ''uuid'' = Some (JStr (task_uuid (remote_tasks w ! i)))
                  \<and> (task_end_date (remote_tasks w ! i) = PNone \<longrightarrow>
                       field (objs ! i) ''end_date'' = Some (JStr ''N/A''))))"
proof -
  have run: "fst (list_tasks srv w) = Inr (dumps (JArr (map task_summary (remote_tasks w))))"
    using list_tasks_run [OF conn tasks] by simp
  have empty: "remote_tasks w = [] \<longrightarrow> fst (list_tasks srv w) = Inr ''[]''"
    using run by (simp add: dumps_empty_array)
  have each: "\<forall>i < length (map task_summary (remote_tasks w)).
        map fst (obj_fields (map task_summary (remote_tasks w) ! i)) =
          [''uuid'', ''name'', ''state'', ''progress'', ''instance_count'',
           ''running_instances'', ''creation_date'', ''end_date'']
      \<and> field (map task_summary (remote_tasks w) ! i) ''uuid'' = Some (JStr (task_uuid (remote_tasks w ! i)))
      \<and> (task_end_date (remote_tasks w ! i) = PNone \<longrightarrow>
           field (map task_summary (remote_tasks w) ! i) ''end_date'' = Some (JStr ''N/A''))"
    by (simp add: task_summary_def field_def)
  show ?thesis
    using run empty each
    by (intro conjI exI[of _ "map task_summary (remote_tasks w)"]) simp_all
qed

text \<open>The two tasks of the example world; the second has no end date.\<close>

theorem list_tasks_array_witness:
  "\<exists>objs. fst (list_tasks example_server example_world) = Inr (dumps (JArr objs))
      \<and> length objs = 2
      \<and> field (objs ! 1) ''uuid'' = Some (JStr ''t-done'')
      \<and> field (objs ! 1) ''end_date'' = Some (JStr ''N/A'')"
proof -
  have c: "faults example_world (Connection (QARNOT_TOKEN example_server)) = None"
    by (simp add: example_world_def)
  have t: "faults example_world Tasks = None"
    by (simp add: example_world_def)
  from list_tasks_array [OF c t]
  obtain objs where o: "fst (list_tasks example_server example_world) = Inr (dumps (JArr objs))"
    and l: "length objs = length (remote_tasks example_world)"
    and e: "\<forall>i < length objs.
              field (objs ! i) ''uuid'' = Some (JStr (task_uuid (remote_tasks example_world ! i)))
            \<and> (task_end_date (remote_tasks example_world ! i) = PNone \<longrightarrow>
                 field (objs ! i) ''end_date'' = Some (JStr ''N/A''))"
    by blast
  have l2: "length objs = 2"
    using l by (simp add: example_world_def)
  have "field (objs ! 1) ''uuid'' = Some (JStr ''t-done'')
      \<and> field (objs ! 1) ''end_date'' = Some (JStr ''N/A'')"
    using e l2 by (simp add: example_world_def example_task_def)
  with o l2 show ?thesis by blast
qed

section \<open>list_buckets, list_bucket_files\<close>

lemma list_buckets_loop_eq:
  "list_buckets_loop buckets result
     = result @ map (\<lambda>b. JObj [(''name'', JStr (bucket_uuid b))]) buckets"
  by (induction buckets arbitrary: result) simp_all

lemma conn_buckets_ok:
  "faults w Buckets = None \<Longrightarrow>
   conn_buckets conn w = (Inr (remote_buckets w), w\<lparr>calls := calls w @ [Buckets]\<rparr>)"
  by (simp add: conn_buckets_def sdk_ok)

lemma retrieve_bucket_ok:
  "faults w (Retrieve_bucket bucket_name) = None \<Longrightarrow>
   find (\<lambda>b. bucket_uuid b = bucket_name) (remote_buckets w) = Some b \<Longrightarrow>
   retrieve_bucket conn bucket_name w = (Inr b, w\<lparr>calls := calls w @ [Retrieve_bucket bucket_name]\<rparr>)"
  by (simp add: retrieve_bucket_def sdk_ok)

lemma find_bucket_uuid:
  "find (\<lambda>b. bucket_uuid b = bucket_name) bs = Some b \<Longrightarrow> bucket_uuid b = bucket_name"
  by (auto simp: find_Some_iff)

lemma list_buckets_run:
  assumes conn: "faults w (Connection (QARNOT_TOKEN srv)) = None"
    and bks: "faults w Buckets = None"
  shows "list_buckets srv w =
     (Inr (if remote_buckets w = [] then ''No buckets found.''
           else dumps (JArr (map (\<lambda>b. JObj [(''name'', JStr (bucket_uuid b))]) (remote_buckets w)))),
      w\<lparr>calls := calls w @ [Connection (QARNOT_TOKEN srv), Buckets]\<rparr>)"
proof -
  let ?w1 = "w\<lparr>calls := calls w @ [Connection (QARNOT_TOKEN srv)]\<rparr>"
  have c: "get_connection srv w = (Inr \<lparr>client_token = QARNOT_TOKEN srv\<rparr>, ?w1)"
    using conn by (rule get_connection_ok)
  have b: "conn_buckets \<lparr>client_token = QARNOT_TOKEN srv\<rparr> ?w1
             = (Inr (remote_buckets w), w\<lparr>calls := calls w @ [Connection (QARNOT_TOKEN srv), Buckets]\<rparr>)"
    using bks conn_buckets_ok [of ?w1] by simp
  show ?thesis
    by (simp add: list_buckets_def and_then_def c b return_def list_buckets_loop_eq)
qed

lemma list_bucket_files_run:
  assumes conn: "faults w (Connection (QARNOT_TOKEN srv)) = None"
    and retr: "faults w (Retrieve_bucket bucket_name) = None"
    and lst: "faults w (List_files bucket_name) = None"
    and found: "find (\<lambda>b. bucket_uuid b = bucket_name) (remote_buckets w) = Some b"
  shows "list_bucket_files srv bucket_name w =
     (Inr (if bucket_files b = [] then ''No files in bucket.''
           else dumps (JArr (map (\<lambda>f. JStr (key f)) (bucket_files b)))),
      w\<lparr>calls := calls w @ [Connection (QARNOT_TOKEN srv), Retrieve_bucket bucket_name,
                             List_files bucket_name]\<rparr>)"
proof -
  let ?w1 = "w\<lparr>calls := calls w @ [Connection (QARNOT_TOKEN srv)]\<rparr>"
  let ?w2 = "w\<lparr>calls := calls w @ [Connection (QARNOT_TOKEN srv), Retrieve_bucket bucket_name]\<rparr>"
  have u: "bucket_uuid b = bucket_name"
    using found by (rule find_bucket_uuid)
  have c: "get_connection srv w = (Inr \<lparr>client_token = QARNOT_TOKEN srv\<rparr>, ?w1)"
    using conn by (rule get_connection_ok)
  have r: "retrieve_bucket \<lparr>client_token = QARNOT_TOKEN srv\<rparr> bucket_name ?w1 = (Inr b, ?w2)"
    using retr found retrieve_bucket_ok [of ?w1 bucket_name b] by simp
  have l: "bucket_list_files b ?w2 =
     (Inr (bucket_files b),
      w\<lparr>calls := calls w @ [Connection (QARNOT_TOKEN srv), Retrieve_bucket bucket_name,
                             List_files bucket_name]\<rparr>)"
    using lst by (simp add: bucket_list_files_def sdk_ok return_def u)
  show ?thesis
    by (simp add: list_bucket_files_def and_then_def c r l return_def comp_def)
qed

text \<open>
  Claim C2, as the code has it. With no bucket \<open>list_buckets\<close> returns "No buckets
  found."; otherwise it returns the JSON text of an array with one object per bucket, the
  object having the single field \<open>name\<close> that holds the bucket's identifier.
  \<open>list_bucket_files\<close> returns "No files in bucket." for a bucket without files, and
  otherwise the JSON text of the array of the file keys, as strings.
\<close>

theorem list_buckets_and_files:
  assumes conn: "faults w (Connection (QARNOT_TOKEN srv)) = None"
  shows "(faults w Buckets = None \<longrightarrow>
            (remote_buckets w = [] \<longrightarrow> fst (list_buckets srv w) = Inr ''No buckets found.'')
          \<and> (remote_buckets w \<noteq> [] \<longrightarrow>
                fst (list_buckets srv w) =
                  Inr (dumps (JArr (map (\<lambda>b. JObj [(''name'', JStr (bucket_uuid b))])
                                     (remote_buckets w))))
              \<and> length (map (\<lambda>b. JObj [(''name'', JStr (bucket_uuid b))]) (remote_buckets w))
                  = length (remote_buckets w)))
       \<and> (faults w (Retrieve_bucket bucket_name) = None
          \<and> faults w (List_files bucket_name) = None
          \<and> find (\<lambda>b. bucket_uuid b = bucket_name) (remote_buckets w) = Some b \<longrightarrow>
            (bucket_files b = [] \<longrightarrow>
               fst (list_bucket_files srv bucket_name w) = Inr ''No files in bucket.'')
          \<and> (bucket_files b \<noteq> [] \<longrightarrow>
               fst (list_bucket_files srv bucket_name w) =
                 Inr (dumps (JArr (map (\<lambda>f. JStr (key f)) (bucket_files b))))))"
proof -
  have buckets: "faults w Buckets = None \<longrightarrow>
      fst (list_buckets srv w) =
        Inr (if remote_buckets w = [] then ''No buckets found.''
             else dumps (JArr (map (\<lambda>b. JObj [(''name'', JStr (bucket_uuid b))])
                                (remote_buckets w))))"
    using list_buckets_run [OF conn] by simp
  have keys: "faults w (Retrieve_bucket bucket_name) = None
          \<and> faults w (List_files bucket_name) = None
          \<and> find (\<lambda>b. bucket_uuid b = bucket_name) (remote_buckets w) = Some b \<longrightarrow>
      fst (list_bucket_files srv bucket_name w) =
        Inr (if bucket_files b = [] then ''No files in bucket.''
             else dumps (JArr (map (\<lambda>f. JStr (key f)) (bucket_files b))))"
    using list_bucket_files_run [OF conn] by simp
  show ?thesis
    using buckets keys by simp
qed

text \<open>
  No bucket at all, the empty bucket alone, and the bucket of the example world with its
  one file.
\<close>

theorem list_buckets_and_files_witness:
  "fst (list_buckets example_server example_bare_world) = Inr ''No buckets found.''
   \<and> fst (list_bucket_files example_server ''empty'' example_spare_world)
       = Inr ''No files in bucket.''
   \<and> fst (list_buckets example_server example_world)
       = Inr (dumps (JArr [JObj [(''name'', JStr ''results'')]]))
   \<and> fst (list_bucket_files example_server ''results'' example_world)
       = Inr (dumps (JArr [JStr ''out/log.txt'']))"
proof -
  have none: "fst (list_buckets example_server example_bare_world) = Inr ''No buckets found.''"
    using list_buckets_and_files [of example_bare_world example_server "''empty''"
        example_empty_bucket, THEN conjunct1]
    by (simp add: example_bare_world_def example_world_def)
  have empty: "fst (list_bucket_files example_server ''empty'' example_spare_world)
       = Inr ''No files in bucket.''"
    using list_buckets_and_files [of example_spare_world example_server "''empty''"
        example_empty_bucket, THEN conjunct2]
    by (simp add: example_spare_world_def example_world_def example_empty_bucket_def)
  have one: "fst (list_buckets example_server example_world)
       = Inr (dumps (JArr [JObj [(''name'', JStr ''results'')]]))"
    using list_buckets_and_files [of example_world example_server "''results''"
        example_bucket, THEN conjunct1]
    by (simp add: example_world_def example_bucket_def)
  have listed: "fst (list_bucket_files example_server ''results'' example_world)
       = Inr (dumps (JArr [JStr ''out/log.txt'']))"
    using list_buckets_and_files [of example_world example_server "''results''"
        example_bucket, THEN conjunct2]
    by (simp add: example_world_def example_bucket_def)
  show ?thesis
    using none empty one listed by simp
qed

text \<open>
  The array \<open>list_buckets\<close> returns for the one bucket of the example world holds an
  object, not the bucket's identifier: the text differs from that of the array of
  identifiers.
\<close>

theorem list_buckets_identifiers_counterexample:
  "remote_buckets example_world = [example_bucket]
   \<and> bucket_uuid example_bucket = ''results''
   \<and> fst (list_buckets example_server example_world)
       = Inr (dumps (JArr [JObj [(''name'', JStr ''results'')]]))
   \<and> fst (list_buckets example_server example_world) \<noteq> Inr (dumps (JArr [JStr ''results'']))"
proof -
  have c: "faults example_world (Connection (QARNOT_TOKEN example_server)) = None"
    by (simp add: example_world_def)
  have b: "faults example_world Buckets = None"
    by (simp add: example_world_def)
  have run: "fst (list_buckets example_server example_world)
       = Inr (dumps (JArr [JObj [(''name'', JStr ''results'')]]))"
    using list_buckets_run [OF c b] by (simp add: example_world_def example_bucket_def)
  have ne: "dumps (JArr [JObj [(''name'', JStr ''results'')]]) \<noteq> dumps (JArr [JStr ''results''])"
    by (simp add: dumps_def newline_indent_def encode_basestring_ascii_def)
  show ?thesis
    using run ne by (simp add: example_world_def example_bucket_def)
qed

section \<open>get_task_stdout, get_task_stderr\<close>

text \<open>The conditional of line 103 (and 118) is one accessor call with the argument as given.\<close>

lemma stdout_dispatch:
  "(if instance_id \<noteq> None then task_stdout_of t (the instance_id) else task_stdout t)
     = sdk (Stdout (task_uuid t) instance_id) (return (stdout_capture t instance_id))"
  by (cases instance_id) (simp_all add: task_stdout_def task_stdout_of_def)

lemma stderr_dispatch:
  "(if instance_id \<noteq> None then task_stderr_of t (the instance_id) else task_stderr t)
     = sdk (Stderr (task_uuid t) instance_id) (return (stderr_capture t instance_id))"
  by (cases instance_id) (simp_all add: task_stderr_def task_stderr_of_def)

lemma get_task_stdout_run:
  assumes conn: "faults w (Connection (QARNOT_TOKEN srv)) = None"
    and retr: "faults w (Retrieve_task uuid) = None"
    and found: "find (\<lambda>t. task_uuid t = uuid) (remote_tasks w) = Some t"
  shows "get_task_stdout srv uuid instance_id w =
     (case faults w (Stdout uuid instance_id) of
        Some e \<Rightarrow> Inl e
      | None \<Rightarrow> Inr (case stdout_capture t instance_id of
                      None \<Rightarrow> ''(no output)''
                    | Some s \<Rightarrow> if s = [] then ''(no output)'' else s),
      w\<lparr>calls := calls w @ [Connection (QARNOT_TOKEN srv), Retrieve_task uuid,
                             Stdout uuid instance_id]\<rparr>)"
proof -
  let ?w1 = "w\<lparr>calls := calls w @ [Connection (QARNOT_TOKEN srv)]\<rparr>"
  let ?w2 = "w\<lparr>calls := calls w @ [Connection (QARNOT_TOKEN srv), Retrieve_task uuid]\<rparr>"
  have u: "task_uuid t = uuid"
    using found by (rule find_task_uuid)
  have c: "get_connection srv w = (Inr \<lparr>client_token = QARNOT_TOKEN srv\<rparr>, ?w1)"
    using conn by (rule get_connection_ok)
  have r: "retrieve_task \<lparr>client_token = QARNOT_TOKEN srv\<rparr> uuid ?w1 = (Inr t, ?w2)"
    using retr found retrieve_task_ok [of ?w1 uuid t] by simp
  show ?thesis
    unfolding get_task_stdout_def stdout_dispatch
    by (simp add: and_then_def c r u sdk_def return_def split: option.splits)
qed

lemma get_task_stderr_run:
  assumes conn: "faults w (Connection (QARNOT_TOKEN srv)) = None"
    and retr: "faults w (Retrieve_task uuid) = None"
    and found: "find (\<lambda>t. task_uuid t = uuid) (remote_tasks w) = Some t"
  shows "get_task_stderr srv uuid instance_id w =
     (case faults w (Stderr uuid instance_id) of
        Some e \<Rightarrow> Inl e
      | None \<Rightarrow> Inr (case stderr_capture t instance_id of
                      None \<Rightarrow> ''(no error output)''
                    | Some s \<Rightarrow> if s = [] then ''(no error output)'' else s),
      w\<lparr>calls := calls w @ [Connection (QARNOT_TOKEN srv), Retrieve_task uuid,
                             Stderr uuid instance_id]\<rparr>)"
proof -
  let ?w1 = "w\<lparr>calls := calls w @ [Connection (QARNOT_TOKEN srv)]\<rparr>"
  let ?w2 = "w\<lparr>calls := calls w @ [Connection (QARNOT_TOKEN srv), Retrieve_task uuid]\<rparr>"
  have u: "task_uuid t = uuid"
    using found by (rule find_task_uuid)
  have c: "get_connection srv w = (Inr \<lparr>client_token = QARNOT_TOKEN srv\<rparr>, ?w1)"
    using conn by (rule get_connection_ok)
  have r: "retrieve_task \<lparr>client_token = QARNOT_TOKEN srv\<rparr> uuid ?w1 = (Inr t, ?w2)"
    using retr found retrieve_task_ok [of ?w1 uuid t] by simp
  show ?thesis
    unfolding get_task_stderr_def stderr_dispatch
    by (simp add: and_then_def c r u sdk_def return_def split: option.splits)
qed

text \<open>
  Claim C6. When the task is found and the accessor call succeeds, \<open>get_task_stdout\<close>
  returns "(no output)" if the capture read is \<open>None\<close> or the empty string and the
  captured text itself otherwise; \<open>get_task_stderr\<close> does the same with "(no error
  output)". The capture read is the one of the instance id passed: the accessor is called
  with that argument, after the two calls that fetch the task.
\<close>

theorem get_task_output:
  assumes conn: "faults w (Connection (QARNOT_TOKEN srv)) = None"
    and retr: "faults w (Retrieve_task uuid) = None"
    and out: "faults w (Stdout uuid instance_id) = None"
    and err: "faults w (Stderr uuid instance_id) = None"
    and found: "find (\<lambda>t. task_uuid t = uuid) (remote_tasks w) = Some t"
  shows "fst (get_task_stdout srv uuid instance_id w) =
           Inr (if stdout_capture t instance_id = None \<or> stdout_capture t instance_id = Some []
                then ''(no output)'' else the (stdout_capture t instance_id))
       \<and> calls (snd (get_task_stdout srv uuid instance_id w)) =
           calls w @ [Connection (QARNOT_TOKEN srv), Retrieve_task uuid, Stdout uuid instance_id]
       \<and> fst (get_task_stderr srv uuid instance_id w) =
           Inr (if stderr_capture t instance_id = None \<or> stderr_capture t instance_id = Some []
                then ''(no error output)'' else the (stderr_capture t instance_id))
       \<and> calls (snd (get_task_stderr srv uuid instance_id w)) =
           calls w @ [Connection (QARNOT_TOKEN srv), Retrieve_task uuid, Stderr uuid instance_id]"
  using out err
  by (auto simp: get_task_stdout_run [OF conn retr found] get_task_stderr_run [OF conn retr found]
      split: option.splits)

text \<open>
  Instance 1 of the running example task has captured nothing, instance 0 has: the
  placeholder for the one, the text for the other.
\<close>

theorem get_task_output_witness:
  "fst (get_task_stdout example_server ''t-run'' (Some 1) example_world) = Inr ''(no output)''
   \<and> fst (get_task_stderr example_server ''t-run'' (Some 1) example_world) = Inr ''(no error output)''
   \<and> calls (snd (get_task_stdout example_server ''t-run'' (Some 1) example_world))
       = [Connection ''secret'', Retrieve_task ''t-run'', Stdout ''t-run'' (Some 1)]"
  using get_task_output [of example_world example_server "''t-run''" "Some 1"
      "example_task ''t-run'' ''FullyExecuting'' (Attr (Some example_status))"]
  by (simp add: example_defs)

text \<open>
  Claim C9. The dispatch tests the argument against \<open>None\<close>: with \<open>instance_id = 0\<close> the
  accessor is called with 0 and the capture of instance 0 is what is returned; the
  whole-task accessor is the call made exactly when the argument is \<open>None\<close>.
\<close>

theorem instance_zero_is_an_instance:
  assumes conn: "faults w (Connection (QARNOT_TOKEN srv)) = None"
    and retr: "faults w (Retrieve_task uuid) = None"
    and out: "faults w (Stdout uuid (Some 0)) = None"
    and err: "faults w (Stderr uuid (Some 0)) = None"
    and found: "find (\<lambda>t. task_uuid t = uuid) (remote_tasks w) = Some t"
  shows "calls (snd (get_task_stdout srv uuid (Some 0) w)) =
           calls w @ [Connection (QARNOT_TOKEN srv), Retrieve_task uuid, Stdout uuid (Some 0)]
       \<and> calls (snd (get_task_stderr srv uuid (Some 0) w)) =
           calls w @ [Connection (QARNOT_TOKEN srv), Retrieve_task uuid, Stderr uuid (Some 0)]
       \<and> fst (get_task_stdout srv uuid (Some 0) w) =
           Inr (case stdout_capture t (Some 0) of
                  None \<Rightarrow> ''(no output)'' | Some s \<Rightarrow> if s = [] then ''(no output)'' else s)
       \<and> fst (get_task_stderr srv uuid (Some 0) w) =
           Inr (case stderr_capture t (Some 0) of
                  None \<Rightarrow> ''(no error output)''
                | Some s \<Rightarrow> if s = [] then ''(no error output)'' else s)
       \<and> (last (calls (snd (get_task_stdout srv uuid instance_id w))) = Stdout uuid None)
           = (instance_id = None)
       \<and> (last (calls (snd (get_task_stderr srv uuid instance_id w))) = Stderr uuid None)
           = (instance_id = None)"
  using out err
  by (auto simp: get_task_stdout_run [OF conn retr found] get_task_stderr_run [OF conn retr found])

text \<open>
  In the example world the whole-task output is "all" and that of instance 0 is "zero":
  passing 0 gives "zero".
\<close>

theorem instance_zero_is_an_instance_witness:
  "fst (get_task_stdout example_server ''t-run'' (Some 0) example_world) = Inr ''zero''
   \<and> fst (get_task_stdout example_server ''t-run'' None example_world) = Inr ''all''
   \<and> fst (get_task_stderr example_server ''t-run'' (Some 0) example_world) = Inr ''oops''
   \<and> calls (snd (get_task_stdout example_server ''t-run'' (Some 0) example_world))
       = [Connection ''secret'', Retrieve_task ''t-run'', Stdout ''t-run'' (Some 0)]"
proof -
  have c: "faults example_world (Connection (QARNOT_TOKEN example_server)) = None"
    by (simp add: example_world_def)
  have r: "faults example_world (Retrieve_task ''t-run'') = None"
    by (simp add: example_world_def)
  have f: "find (\<lambda>t. task_uuid t = ''t-run'') (remote_tasks example_world)
             = Some (example_task ''t-run'' ''FullyExecuting'' (Attr (Some example_status)))"
    by (simp add: example_world_def example_task_def)
  have whole: "fst (get_task_stdout example_server ''t-run'' None example_world) = Inr ''all''"
    by (simp add: get_task_stdout_run [OF c r f]) (simp add: example_world_def example_task_def)
  show ?thesis
    using instance_zero_is_an_instance [OF c r _ _ f] whole
    by (simp add: example_defs)
qed

section \<open>download_result\<close>

lemma download_result_run:
  assumes conn: "faults w (Connection (QARNOT_TOKEN srv)) = None"
    and retr: "faults w (Retrieve_bucket bucket_name) = None"
    and found: "find (\<lambda>b. bucket_uuid b = bucket_name) (remote_buckets w) = Some b"
  shows "download_result srv bucket_name remote_path local_path w =
     (case bucket_get_file b remote_path local_path
             (w\<lparr>calls := calls w @ [Connection (QARNOT_TOKEN srv), Retrieve_bucket bucket_name]\<rparr>) of
        (Inl e, w') \<Rightarrow> (Inl e, w')
      | (Inr _, w') \<Rightarrow>
          (Inr (''Downloaded '' @ [squote] @ remote_path @ [squote] @ '' from '' @ [squote]
                @ bucket_name @ [squote] @ '' to '' @ [squote] @ local_path @ [squote]), w'))"
proof -
  let ?w1 = "w\<lparr>calls := calls w @ [Connection (QARNOT_TOKEN srv)]\<rparr>"
  let ?w2 = "w\<lparr>calls := calls w @ [Connection (QARNOT_TOKEN srv), Retrieve_bucket bucket_name]\<rparr>"
  have c: "get_connection srv w = (Inr \<lparr>client_token = QARNOT_TOKEN srv\<rparr>, ?w1)"
    using conn by (rule get_connection_ok)
  have r: "retrieve_bucket \<lparr>client_token = QARNOT_TOKEN srv\<rparr> bucket_name ?w1 = (Inr b, ?w2)"
    using retr found retrieve_bucket_ok [of ?w1 bucket_name b] by simp
  show ?thesis
    by (simp add: download_result_def and_then_def c r return_def split: prod.splits sum.splits)
qed

lemma sublist_middle: "sublist xs (ps @ xs @ ss)"
  unfolding sublist_def by blast

text \<open>
  Claim C7. The bucket is found and the calls that fetch it succeed. If the remote file
  exists, the local path can be written and the download itself does not fail remotely,
  then afterwards the local path holds the file's bytes and the result is "Downloaded
  '<remote>' from '<bucket>' to '<local>'", which names the remote path, the bucket and
  the local path. Whenever \<open>get_file\<close> raises, for a missing remote file in particular,
  \<open>download_result\<close> raises that same error, returns no confirmation and leaves the local
  files as they were. The tool does nothing to the world beyond its one \<open>get_file\<close> call,
  made with the bucket, the remote path and the local path in that order.
\<close>

theorem download_result_copies_or_propagates:
  assumes conn: "faults w (Connection (QARNOT_TOKEN srv)) = None"
    and retr: "faults w (Retrieve_bucket bucket_name) = None"
    and found: "find (\<lambda>b. bucket_uuid b = bucket_name) (remote_buckets w) = Some b"
  shows "(faults w (Get_file bucket_name remote_path local_path) = None
          \<and> find (\<lambda>f. key f = remote_path) (bucket_files b) = Some f
          \<and> local_path \<notin> unwritable w \<longrightarrow>
            fst (download_result srv bucket_name remote_path local_path w) =
              Inr (''Downloaded '' @ [squote] @ remote_path @ [squote] @ '' from '' @ [squote]
                   @ bucket_name @ [squote] @ '' to '' @ [squote] @ local_path @ [squote])
          \<and> local_files (snd (download_result srv bucket_name remote_path local_path w)) local_path
              = Some (content f)
          \<and> sublist remote_path (projr (fst (download_result srv bucket_name remote_path local_path w)))
          \<and> sublist bucket_name (projr (fst (download_result srv bucket_name remote_path local_path w)))
          \<and> sublist local_path (projr (fst (download_result srv bucket_name remote_path local_path w))))
       \<and> (fst (bucket_get_file b remote_path local_path
                 (w\<lparr>calls := calls w @ [Connection (QARNOT_TOKEN srv),
                                        Retrieve_bucket bucket_name]\<rparr>)) = Inl e \<longrightarrow>
            fst (download_result srv bucket_name remote_path local_path w) = Inl e
          \<and> local_files (snd (download_result srv bucket_name remote_path local_path w))
              = local_files w)
       \<and> (faults w (Get_file bucket_name remote_path local_path) = None
          \<and> find (\<lambda>f. key f = remote_path) (bucket_files b) = None \<longrightarrow>
            fst (download_result srv bucket_name remote_path local_path w)
              = Inl (MissingFileException bucket_name remote_path))
       \<and> snd (download_result srv bucket_name remote_path local_path w)
           = snd (bucket_get_file b remote_path local_path
                    (w\<lparr>calls := calls w @ [Connection (QARNOT_TOKEN srv),
                                           Retrieve_bucket bucket_name]\<rparr>))
       \<and> calls (snd (download_result srv bucket_name remote_path local_path w))
           = calls w @ [Connection (QARNOT_TOKEN srv), Retrieve_bucket bucket_name,
                        Get_file bucket_name remote_path local_path]"
proof -
  let ?w2 = "w\<lparr>calls := calls w @ [Connection (QARNOT_TOKEN srv), Retrieve_bucket bucket_name]\<rparr>"
  let ?msg = "''Downloaded '' @ [squote] @ remote_path @ [squote] @ '' from '' @ [squote]
                   @ bucket_name @ [squote] @ '' to '' @ [squote] @ local_path @ [squote]"
  have u: "bucket_uuid b = bucket_name"
    using found by (rule find_bucket_uuid)
  note run = download_result_run [OF conn retr found, of remote_path local_path]
  have s1: "sublist remote_path ?msg"
    using sublist_middle [of remote_path "''Downloaded '' @ [squote]"
        "[squote] @ '' from '' @ [squote] @ bucket_name @ [squote] @ '' to '' @ [squote] @ local_path @ [squote]"]
    by simp
  have s2: "sublist bucket_name ?msg"
    using sublist_middle [of bucket_name "''Downloaded '' @ [squote] @ remote_path @ [squote] @ '' from '' @ [squote]"
        "[squote] @ '' to '' @ [squote] @ local_path @ [squote]"]
    by simp
  have s3: "sublist local_path ?msg"
    using sublist_middle [of local_path "''Downloaded '' @ [squote] @ remote_path @ [squote] @ '' from '' @ [squote]
                   @ bucket_name @ [squote] @ '' to '' @ [squote]" "[squote]"]
    by simp
  have ok: "faults w (Get_file bucket_name remote_path local_path) = None
          \<and> find (\<lambda>f. key f = remote_path) (bucket_files b) = Some f
          \<and> local_path \<notin> unwritable w \<longrightarrow>
            fst (download_result srv bucket_name remote_path local_path w) = Inr ?msg
          \<and> local_files (snd (download_result srv bucket_name remote_path local_path w)) local_path
              = Some (content f)"
    by (simp add: run bucket_get_file_def sdk_def u)
  have bad: "fst (bucket_get_file b remote_path local_path ?w2) = Inl e \<longrightarrow>
            fst (download_result srv bucket_name remote_path local_path w) = Inl e
          \<and> local_files (snd (download_result srv bucket_name remote_path local_path w))
              = local_files w"
    by (auto simp: run bucket_get_file_def sdk_def u Let_def split: option.splits if_splits)
  have missing: "faults w (Get_file bucket_name remote_path local_path) = None
          \<and> find (\<lambda>f. key f = remote_path) (bucket_files b) = None \<longrightarrow>
            fst (download_result srv bucket_name remote_path local_path w)
              = Inl (MissingFileException bucket_name remote_path)"
    by (simp add: run bucket_get_file_def sdk_def u)
  have world: "snd (download_result srv bucket_name remote_path local_path w)
           = snd (bucket_get_file b remote_path local_path ?w2)"
    by (simp add: run split: prod.splits sum.splits)
  have trace: "calls (snd (download_result srv bucket_name remote_path local_path w))
           = calls w @ [Connection (QARNOT_TOKEN srv), Retrieve_bucket bucket_name,
                        Get_file bucket_name remote_path local_path]"
    unfolding world
    by (simp add: bucket_get_file_def sdk_def u Let_def split: option.splits)
  show ?thesis
    using ok bad missing s1 s2 s3 world trace by simp
qed

text \<open>
  Downloading the file of the example bucket, and asking for a file the bucket does not
  have.
\<close>

theorem download_result_copies_or_propagates_witness:
  "fst (download_result example_server ''results'' ''out/log.txt'' ''/tmp/log.txt'' example_world)
     = Inr (''Downloaded '' @ [squote] @ ''out/log.txt'' @ [squote] @ '' from '' @ [squote]
            @ ''results'' @ [squote] @ '' to '' @ [squote] @ ''/tmp/log.txt'' @ [squote])
   \<and> local_files (snd (download_result example_server ''results'' ''out/log.txt'' ''/tmp/log.txt''
                        example_world)) ''/tmp/log.txt'' = Some ''done''
   \<and> fst (download_result example_server ''results'' ''out/none.txt'' ''/tmp/log.txt'' example_world)
     = Inl (MissingFileException ''results'' ''out/none.txt'')"
proof -
  have c: "faults example_world (Connection (QARNOT_TOKEN example_server)) = None"
    by (simp add: example_world_def)
  have r: "faults example_world (Retrieve_bucket ''results'') = None"
    by (simp add: example_world_def)
  have f: "find (\<lambda>b. bucket_uuid b = ''results'') (remote_buckets example_world) = Some example_bucket"
    by (simp add: example_world_def example_bucket_def)
  have copied: "fst (download_result example_server ''results'' ''out/log.txt'' ''/tmp/log.txt'' example_world)
     = Inr (''Downloaded '' @ [squote] @ ''out/log.txt'' @ [squote] @ '' from '' @ [squote]
            @ ''results'' @ [squote] @ '' to '' @ [squote] @ ''/tmp/log.txt'' @ [squote])
   \<and> local_files (snd (download_result example_server ''results'' ''out/log.txt'' ''/tmp/log.txt''
                        example_world)) ''/tmp/log.txt'' = Some ''done''"
    using download_result_copies_or_propagates [OF c r f,
        of "''out/log.txt''" "''/tmp/log.txt''" "\<lparr>key = ''out/log.txt'', content = ''done''\<rparr>"
          "OSError []", THEN conjunct1]
    by (simp add: example_world_def example_bucket_def)
  have missing: "fst (download_result example_server ''results'' ''out/none.txt'' ''/tmp/log.txt'' example_world)
     = Inl (MissingFileException ''results'' ''out/none.txt'')"
    using download_result_copies_or_propagates [OF c r f, of "''out/none.txt''" "''/tmp/log.txt''"
        "\<lparr>key = [], content = []\<rparr>" "MissingFileException ''results'' ''out/none.txt''",
        THEN conjunct2, THEN conjunct2, THEN conjunct1]
    by (simp add: example_world_def example_bucket_def)
  show ?thesis
    using copied missing by simp
qed

section \<open>get_task_status\<close>

lemma scan_forwards_eq:
  "scan_forwards instance fwds ssh_info = ssh_info @ map (forward_descriptor instance) fwds"
  by (induction fwds arbitrary: ssh_info) simp_all

lemma scan_instances_Inr:
  "scan_instances instances ssh_info = Inr r \<Longrightarrow>
   r = ssh_info @ concat (map (\<lambda>i. map (forward_descriptor i) (probed_forwards_of i)) instances)"
proof (induction instances arbitrary: ssh_info)
  case Nil
  then show ?case by simp
next
  case (Cons i instances)
  from Cons.prems obtain fwds where
    g: "getattr (active_forwards i) (Some []) = Some fwds" and
    rest: "scan_instances instances (scan_forwards i fwds ssh_info) = Inr r"
    by (auto split: option.splits)
  have f: "probed_forwards_of i = fwds"
  proof (cases "active_forwards i")
    case Missing
    with g show ?thesis by (simp add: probed_forwards_of_def)
  next
    case (Attr v)
    with g show ?thesis by (simp add: probed_forwards_of_def)
  qed
  from Cons.IH [OF rest] show ?case
    by (simp add: f scan_forwards_eq)
qed

lemma descriptors_of_reported:
  "map (\<lambda>(i, f). forward_descriptor i f) (concat (map (\<lambda>i. map (Pair i) (probed_forwards_of i)) instances))
     = concat (map (\<lambda>i. map (forward_descriptor i) (probed_forwards_of i)) instances)"
  by (induction instances) simp_all

lemma collect_ssh_info_cases:
  "collect_ssh_info t =
     (case task_status t of
        Missing \<Rightarrow> Inr []
      | Attr None \<Rightarrow> Inr []
      | Attr (Some status) \<Rightarrow>
          (case running_instances_info status of
             Missing \<Rightarrow> Inr []
           | Attr None \<Rightarrow> Inr []
           | Attr (Some running_info) \<Rightarrow>
               (case per_running_instance_info running_info of
                  Missing \<Rightarrow> Inr []
                | Attr None \<Rightarrow> Inl not_iterable
                | Attr (Some instances) \<Rightarrow> scan_instances instances [])))"
  by (simp add: collect_ssh_info_def split: attr.splits option.splits)

lemma collect_ssh_info_Inr:
  assumes "collect_ssh_info t = Inr r"
  shows "r = map (\<lambda>(i, f). forward_descriptor i f) (probed_forwards t)"
  using assms unfolding collect_ssh_info_cases probed_forwards_def instances_of_def
  by (auto split: attr.splits option.splits dest!: scan_instances_Inr
      simp: descriptors_of_reported)

lemma task_update_ok:
  "faults w (Update uuid flushcache) = None \<Longrightarrow>
   find (\<lambda>t. task_uuid t = uuid) (remote_tasks w) = Some t \<Longrightarrow>
   task_update t flushcache w = (Inr t, w\<lparr>calls := calls w @ [Update uuid flushcache]\<rparr>)"
  by (frule find_task_uuid) (simp add: task_update_def sdk_ok lookup_task_def)

lemma get_task_status_run:
  assumes conn: "faults w (Connection (QARNOT_TOKEN srv)) = None"
    and retr: "faults w (Retrieve_task uuid) = None"
    and upd: "faults w (Update uuid True) = None"
    and found: "find (\<lambda>t. task_uuid t = uuid) (remote_tasks w) = Some t"
  shows "get_task_status srv uuid w =
     (case collect_ssh_info t of
        Inl e \<Rightarrow> Inl e
      | Inr ssh_info \<Rightarrow> Inr (dumps (JObj (status_fields t ssh_info))),
      w\<lparr>calls := calls w @ [Connection (QARNOT_TOKEN srv), Retrieve_task uuid, Update uuid True]\<rparr>)"
proof -
  let ?w1 = "w\<lparr>calls := calls w @ [Connection (QARNOT_TOKEN srv)]\<rparr>"
  let ?w2 = "w\<lparr>calls := calls w @ [Connection (QARNOT_TOKEN srv), Retrieve_task uuid]\<rparr>"
  let ?w3 = "w\<lparr>calls := calls w @ [Connection (QARNOT_TOKEN srv), Retrieve_task uuid, Update uuid True]\<rparr>"
  have c: "get_connection srv w = (Inr \<lparr>client_token = QARNOT_TOKEN srv\<rparr>, ?w1)"
    using conn by (rule get_connection_ok)
  have r: "retrieve_task \<lparr>client_token = QARNOT_TOKEN srv\<rparr> uuid ?w1 = (Inr t, ?w2)"
    using retr found retrieve_task_ok [of ?w1 uuid t] by simp
  have up: "task_update t True ?w2 = (Inr t, ?w3)"
    using upd found task_update_ok [of ?w2 uuid True t] by simp
  show ?thesis
    by (simp add: get_task_status_def and_then_def c r up return_def raise_def split: sum.splits)
qed

text \<open>
  What the tool does with what it finds under \<open>active_forwards\<close>. When the task is
  fetched and refreshed and \<open>get_task_status\<close> returns a text, the text is that of a
  JSON object whose field \<open>ssh_connections\<close> is the string "No active SSH forwards"
  exactly when nothing is found under that name; otherwise the field is the non-empty
  array of one descriptor per forward found, in order, and the \<open>ssh_command\<close> of a
  descriptor is \<open>null\<close> exactly when the forward's application port is not 22.
\<close>

lemma get_task_status_probed_forwards:
  assumes conn: "faults w (Connection (QARNOT_TOKEN srv)) = None"
    and retr: "faults w (Retrieve_task uuid) = None"
    and upd: "faults w (Update uuid True) = None"
    and found: "find (\<lambda>t. task_uuid t = uuid) (remote_tasks w) = Some t"
    and returned: "fst (get_task_status srv uuid w) = Inr s"
  shows "\<exists>fields descs.
           s = dumps (JObj fields)
         \<and> descs = map (\<lambda>(i, f). forward_descriptor i f) (probed_forwards t)
         \<and> (map_of fields ''ssh_connections'' = Some (JStr ''No active SSH forwards''))
             = (probed_forwards t = [])
         \<and> (probed_forwards t \<noteq> [] \<longrightarrow>
              map_of fields ''ssh_connections'' = Some (JArr descs) \<and> descs \<noteq> [])
         \<and> (\<forall>(i, f) \<in> set (probed_forwards t).
              field (forward_descriptor i f) ''instance_id'' = Some (JInt (info_instance_id i))
            \<and> (field (forward_descriptor i f) ''ssh_command'' = Some JNull)
                = (application_port f \<noteq> 22)
            \<and> (application_port f = 22 \<longrightarrow>
                 field (forward_descriptor i f) ''ssh_command''
                   = Some (JStr (''ssh -p '' @ str_int (forwarder_port f) @ '' user@''
                                 @ forwarder_host f))))"
proof -
  let ?descs = "map (\<lambda>(i, f). forward_descriptor i f) (probed_forwards t)"
  from returned obtain ssh_info where
    col: "collect_ssh_info t = Inr ssh_info" and s: "s = dumps (JObj (status_fields t ssh_info))"
    by (auto simp: get_task_status_run [OF conn retr upd found] split: sum.splits)
  have d: "ssh_info = ?descs"
    using col by (rule collect_ssh_info_Inr)
  have a: "(map_of (status_fields t ?descs) ''ssh_connections'' = Some (JStr ''No active SSH forwards''))
             = (probed_forwards t = [])"
    by (simp add: status_fields_def)
  have b: "probed_forwards t \<noteq> [] \<longrightarrow>
              map_of (status_fields t ?descs) ''ssh_connections'' = Some (JArr ?descs) \<and> ?descs \<noteq> []"
    by (simp add: status_fields_def)
  have e: "\<forall>(i, f) \<in> set (probed_forwards t).
              field (forward_descriptor i f) ''instance_id'' = Some (JInt (info_instance_id i))
            \<and> (field (forward_descriptor i f) ''ssh_command'' = Some JNull)
                = (application_port f \<noteq> 22)
            \<and> (application_port f = 22 \<longrightarrow>
                 field (forward_descriptor i f) ''ssh_command''
                   = Some (JStr (''ssh -p '' @ str_int (forwarder_port f) @ '' user@''
                                 @ forwarder_host f)))"
    by (auto simp: field_def forward_descriptor_def)
  show ?thesis
    using s d a b e by (intro exI [of _ "status_fields t ?descs"] exI [of _ ?descs]) simp
qed

lemma scan_instances_no_forwards:
  "list_all (\<lambda>instance. active_forwards instance = Missing
               \<or> active_forwards instance = Attr (Some [])) instances \<Longrightarrow>
   scan_instances instances ssh_info = Inr ssh_info"
  by (induction instances arbitrary: ssh_info) auto

lemma collect_ssh_info_lacking:
  assumes "lacks_forward_info t"
  shows "collect_ssh_info t = Inr []"
  using assms unfolding collect_ssh_info_cases lacks_forward_info_def
  by (auto simp: scan_instances_no_forwards split: attr.splits option.splits)

lemma scan_instances_total:
  "list_all (\<lambda>instance. active_forwards instance \<noteq> Attr None) instances \<Longrightarrow>
   scan_instances instances ssh_info
     = Inr (ssh_info @ concat (map (\<lambda>i. map (forward_descriptor i) (probed_forwards_of i)) instances))"
proof (induction instances arbitrary: ssh_info)
  case Nil
  show ?case by simp
next
  case (Cons i instances)
  then have rest: "list_all (\<lambda>instance. active_forwards instance \<noteq> Attr None) instances"
    and i: "active_forwards i \<noteq> Attr None"
    by simp_all
  from i obtain fwds where
    g: "getattr (active_forwards i) (Some []) = Some fwds" and f: "probed_forwards_of i = fwds"
    by (cases "active_forwards i") (auto simp: probed_forwards_of_def)
  show ?case
    by (simp add: g f scan_forwards_eq Cons.IH [OF rest])
qed

lemma collect_ssh_info_total:
  assumes "no_list_is_None t"
  shows "collect_ssh_info t = Inr (map (\<lambda>(i, f). forward_descriptor i f) (probed_forwards t))"
proof -
  have "\<exists>r. collect_ssh_info t = Inr r"
    using assms unfolding collect_ssh_info_cases no_list_is_None_def
    by (auto simp: scan_instances_total split: attr.splits option.splits)
  then obtain r where r: "collect_ssh_info t = Inr r" ..
  from collect_ssh_info_Inr [OF r] r show ?thesis by simp
qed

lemma lacks_forward_info_reports_nothing:
  assumes "lacks_forward_info t"
  shows "probed_forwards t = []"
proof -
  have "map (\<lambda>(i, f). forward_descriptor i f) (probed_forwards t) = []"
    using collect_ssh_info_Inr [OF collect_ssh_info_lacking [OF assms]] by simp
  then show ?thesis by simp
qed

text \<open>
  Instances as the SDK builds them have no attribute \<open>active_forwards\<close>, so the tool
  finds no forward whatever they hold in \<open>active_forward\<close>.
\<close>

lemma sdk_instances_lack_forward_info:
  assumes "no_list_is_None t"
    and "list_all (\<lambda>instance. active_forwards instance = Missing) (instances_of t)"
  shows "lacks_forward_info t"
proof -
  have weaker: "\<And>instances.
      list_all (\<lambda>instance. active_forwards instance = Missing) instances \<Longrightarrow>
      list_all (\<lambda>instance. active_forwards instance = Missing
                  \<or> active_forwards instance = Attr (Some [])) instances"
    by (simp add: list_all_iff)
  show ?thesis
    using assms unfolding no_list_is_None_def lacks_forward_info_def instances_of_def
    by (auto split: attr.splits option.splits intro: weaker)
qed

lemma get_task_status_ignores_active_forward:
  assumes conn: "faults w (Connection (QARNOT_TOKEN srv)) = None"
    and retr: "faults w (Retrieve_task uuid) = None"
    and upd: "faults w (Update uuid True) = None"
    and found: "find (\<lambda>t. task_uuid t = uuid) (remote_tasks w) = Some t"
    and lists: "no_list_is_None t"
    and sdk: "list_all (\<lambda>instance. active_forwards instance = Missing) (instances_of t)"
  shows "fst (get_task_status srv uuid w) = Inr (dumps (JObj (status_fields t [])))
       \<and> map_of (status_fields t []) ''ssh_connections'' = Some (JStr ''No active SSH forwards'')"
  by (simp add: get_task_status_run [OF conn retr upd found]
      collect_ssh_info_lacking [OF sdk_instances_lack_forward_info [OF lists sdk]])
    (simp add: status_fields_def)

text \<open>
  Claim C4, which the code does not meet. The running task of the example world has one
  instance that reports two active forwards, an SSH forward on application port 22 and a
  web forward, and \<open>get_task_status\<close> answers the object whose \<open>ssh_connections\<close> is the
  string "No active SSH forwards": line 63 reads the attribute \<open>active_forwards\<close>, which
  the instance does not have, and takes the default \<open>[]\<close>.
\<close>

theorem get_task_status_misses_reported_forwards:
  "reported_forwards (example_task ''t-run'' ''FullyExecuting'' (Attr (Some example_status)))
     = [(example_instance, example_ssh_forward), (example_instance, example_web_forward)]
   \<and> application_port example_ssh_forward = 22
   \<and> fst (get_task_status example_server ''t-run'' example_world)
       = Inr (dumps (JObj (status_fields
                (example_task ''t-run'' ''FullyExecuting'' (Attr (Some example_status))) [])))
   \<and> map_of (status_fields
                (example_task ''t-run'' ''FullyExecuting'' (Attr (Some example_status))) [])
         ''ssh_connections''
       = Some (JStr ''No active SSH forwards'')"
proof -
  let ?t = "example_task ''t-run'' ''FullyExecuting'' (Attr (Some example_status))"
  have c: "faults example_world (Connection (QARNOT_TOKEN example_server)) = None"
    by (simp add: example_world_def)
  have r: "faults example_world (Retrieve_task ''t-run'') = None"
    by (simp add: example_world_def)
  have u: "faults example_world (Update ''t-run'' True) = None"
    by (simp add: example_world_def)
  have f: "find (\<lambda>t. task_uuid t = ''t-run'') (remote_tasks example_world) = Some ?t"
    by (simp add: example_world_def example_task_def)
  have l: "lacks_forward_info ?t"
    by (simp add: lacks_forward_info_def example_task_def example_status_def
        example_instance_def example_idle_instance_def)
  have run: "fst (get_task_status example_server ''t-run'' example_world)
       = Inr (dumps (JObj (status_fields ?t [])))"
    by (simp add: get_task_status_run [OF c r u f] collect_ssh_info_lacking [OF l])
  have rf: "reported_forwards ?t
     = [(example_instance, example_ssh_forward), (example_instance, example_web_forward)]"
    by (simp add: reported_forwards_def instances_of_def example_task_def example_status_def)
      (simp add: example_instance_def example_idle_instance_def)
  have p: "application_port example_ssh_forward = 22"
    by (simp add: example_ssh_forward_def)
  have s: "map_of (status_fields ?t []) ''ssh_connections'' = Some (JStr ''No active SSH forwards'')"
    by (simp add: status_fields_def)
  show ?thesis
    using rf p run s by simp
qed

text \<open>
  Claim C10. The task is fetched and refreshed. Whenever no list on the way is \<open>None\<close>
  (attributes may be missing anywhere), \<open>get_task_status\<close> does not raise and returns
  the JSON text of the status object, a missing attribute counting as no forwards. When
  the task lacks forward information altogether (status missing or \<open>None\<close>,
  \<open>running_instances_info\<close> missing or \<open>None\<close>, \<open>per_running_instance_info\<close> missing or
  empty, \<open>active_forwards\<close> missing or empty on every instance), the object has all twelve
  fields: the eleven status fields read from the task, and \<open>ssh_connections\<close> set to
  "No active SSH forwards".
\<close>

theorem get_task_status_without_forward_info:
  assumes conn: "faults w (Connection (QARNOT_TOKEN srv)) = None"
    and retr: "faults w (Retrieve_task uuid) = None"
    and upd: "faults w (Update uuid True) = None"
    and found: "find (\<lambda>t. task_uuid t = uuid) (remote_tasks w) = Some t"
  shows "(no_list_is_None t \<longrightarrow>
            fst (get_task_status srv uuid w) =
              Inr (dumps (JObj (status_fields t
                     (map (\<lambda>(i, f). forward_descriptor i f) (probed_forwards t))))))
       \<and> (lacks_forward_info t \<longrightarrow>
            probed_forwards t = []
          \<and> fst (get_task_status srv uuid w) = Inr (dumps (JObj (status_fields t [])))
          \<and> map fst (status_fields t []) =
              [''uuid'', ''name'', ''state'', ''progress'', ''instance_count'',
               ''running_instances'', ''running_cores'', ''execution_time'', ''wall_time'',
               ''creation_date'', ''end_date'', ''ssh_connections'']
          \<and> map_of (status_fields t []) ''ssh_connections''
              = Some (JStr ''No active SSH forwards'')
          \<and> map_of (status_fields t []) ''uuid'' = Some (JStr (task_uuid t))
          \<and> map_of (status_fields t []) ''name'' = Some (JStr (task_name t))
          \<and> map_of (status_fields t []) ''state'' = Some (JStr (task_state t))
          \<and> map_of (status_fields t []) ''progress''
              = Some (JStr (py_str (task_progress t) @ ''%''))
          \<and> map_of (status_fields t []) ''instance_count'' = Some (JInt (task_instancecount t))
          \<and> map_of (status_fields t []) ''running_instances''
              = Some (JInt (task_running_instance_count t))
          \<and> map_of (status_fields t []) ''running_cores''
              = Some (JInt (task_running_core_count t))
          \<and> map_of (status_fields t []) ''execution_time''
              = Some (JStr (py_str (task_execution_time t)))
          \<and> map_of (status_fields t []) ''wall_time'' = Some (JStr (py_str (task_wall_time t)))
          \<and> map_of (status_fields t []) ''creation_date''
              = Some (JStr (py_str (task_creation_date t)))
          \<and> map_of (status_fields t []) ''end_date''
              = Some (JStr (if py_bool (task_end_date t) then py_str (task_end_date t)
                            else ''N/A'')))"
proof -
  note run = get_task_status_run [OF conn retr upd found]
  have total: "no_list_is_None t \<longrightarrow>
            fst (get_task_status srv uuid w) =
              Inr (dumps (JObj (status_fields t
                     (map (\<lambda>(i, f). forward_descriptor i f) (probed_forwards t)))))"
    by (simp add: run collect_ssh_info_total)
  have lacking: "lacks_forward_info t \<longrightarrow>
            probed_forwards t = []
          \<and> fst (get_task_status srv uuid w) = Inr (dumps (JObj (status_fields t [])))"
    by (simp add: run collect_ssh_info_lacking lacks_forward_info_reports_nothing)
  have fields: "map fst (status_fields t []) =
              [''uuid'', ''name'', ''state'', ''progress'', ''instance_count'',
               ''running_instances'', ''running_cores'', ''execution_time'', ''wall_time'',
               ''creation_date'', ''end_date'', ''ssh_connections'']
          \<and> map_of (status_fields t []) ''ssh_connections''
              = Some (JStr ''No active SSH forwards'')
          \<and> map_of (status_fields t []) ''uuid'' = Some (JStr (task_uuid t))
          \<and> map_of (status_fields t []) ''name'' = Some (JStr (task_name t))
          \<and> map_of (status_fields t []) ''state'' = Some (JStr (task_state t))
          \<and> map_of (status_fields t []) ''progress''
              = Some (JStr (py_str (task_progress t) @ ''%''))
          \<and> map_of (status_fields t []) ''instance_count'' = Some (JInt (task_instancecount t))
          \<and> map_of (status_fields t []) ''running_instances''
              = Some (JInt (task_running_instance_count t))
          \<and> map_of (status_fields t []) ''running_cores''
              = Some (JInt (task_running_core_count t))
          \<and> map_of (status_fields t []) ''execution_time''
              = Some (JStr (py_str (task_execution_time t)))
          \<and> map_of (status_fields t []) ''wall_time'' = Some (JStr (py_str (task_wall_time t)))
          \<and> map_of (status_fields t []) ''creation_date''
              = Some (JStr (py_str (task_creation_date t)))
          \<and> map_of (status_fields t []) ''end_date''
              = Some (JStr (if py_bool (task_end_date t) then py_str (task_end_date t)
                            else ''N/A''))"
    by (simp add: status_fields_def)
  show ?thesis
    using total lacking fields by blast
qed

text \<open>
  The finished task of the example world has no \<open>status\<close> attribute; a task whose
  status lists one instance without \<open>active_forwards\<close> lacks forward information too.
  For the running task, whose instances have no \<open>active_forwards\<close>, the status is
  returned as well.
\<close>

theorem get_task_status_without_forward_info_witness:
  "fst (get_task_status example_server ''t-done'' example_world)
     = Inr (dumps (JObj (status_fields (example_task ''t-done'' ''Success'' Missing) [])))
   \<and> map_of (status_fields (example_task ''t-done'' ''Success'' Missing) []) ''ssh_connections''
       = Some (JStr ''No active SSH forwards'')
   \<and> lacks_forward_info
       (example_task ''t'' ''Submitted''
          (Attr (Some \<lparr>running_instances_info = Attr (Some
             \<lparr>per_running_instance_info = Attr (Some
                [\<lparr>info_instance_id = 0, active_forward = [], active_forwards = Missing\<rparr>])\<rparr>)\<rparr>)))
   \<and> \<not> isl (fst (get_task_status example_server ''t-run'' example_world))"
proof -
  have l: "lacks_forward_info (example_task ''t-done'' ''Success'' Missing)"
    by (simp add: lacks_forward_info_def example_task_def)
  have l2: "lacks_forward_info
       (example_task ''t'' ''Submitted''
          (Attr (Some \<lparr>running_instances_info = Attr (Some
             \<lparr>per_running_instance_info = Attr (Some
                [\<lparr>info_instance_id = 0, active_forward = [], active_forwards = Missing\<rparr>])\<rparr>)\<rparr>)))"
    by (simp add: lacks_forward_info_def example_task_def)
  have n: "no_list_is_None (example_task ''t-run'' ''FullyExecuting'' (Attr (Some example_status)))"
    by (simp add: no_list_is_None_def example_task_def example_status_def
        example_instance_def example_idle_instance_def)
  have finished: "fst (get_task_status example_server ''t-done'' example_world)
     = Inr (dumps (JObj (status_fields (example_task ''t-done'' ''Success'' Missing) [])))
   \<and> map_of (status_fields (example_task ''t-done'' ''Success'' Missing) []) ''ssh_connections''
       = Some (JStr ''No active SSH forwards'')"
    using get_task_status_without_forward_info [of example_world example_server "''t-done''"
        "example_task ''t-done'' ''Success'' Missing"] l
    by (simp add: example_world_def example_server_def example_task_def)
  have running: "\<not> isl (fst (get_task_status example_server ''t-run'' example_world))"
    using get_task_status_without_forward_info [of example_world example_server "''t-run''"
        "example_task ''t-run'' ''FullyExecuting'' (Attr (Some example_status))"] n
    by (simp add: example_world_def example_server_def example_task_def)
  show ?thesis
    using finished l2 running by simp
qed

section \<open>Startup and the credential\<close>

lemma connection_tokens_append:
  "connection_tokens (xs @ ys) = connection_tokens xs @ connection_tokens ys"
  by (simp add: connection_tokens_def)

lemma no_connection_return: "no_connection (return x)"
  by (simp add: no_connection_def return_def connection_tokens_def)

lemma no_connection_raise: "no_connection (raise e)"
  by (simp add: no_connection_def raise_def connection_tokens_def)

lemma no_connection_and_then:
  assumes m: "no_connection m" and f: "\<And>x. no_connection (f x)"
  shows "no_connection (and_then m f)"
  unfolding no_connection_def
proof
  fix w
  from m obtain cs1 where 1: "calls (snd (m w)) = calls w @ cs1" "connection_tokens cs1 = []"
    unfolding no_connection_def by blast
  show "\<exists>cs. calls (snd (and_then m f w)) = calls w @ cs \<and> connection_tokens cs = []"
  proof (cases "m w")
    case (Pair r w')
    show ?thesis
    proof (cases r)
      case (Inl e)
      with Pair 1 show ?thesis by (auto simp: and_then_def)
    next
      case (Inr x)
      from f [of x] obtain cs2 where
        2: "calls (snd (f x w')) = calls w' @ cs2" "connection_tokens cs2 = []"
        unfolding no_connection_def by blast
      from Pair Inr 1 2 have "calls (snd (and_then m f w)) = calls w @ (cs1 @ cs2)"
        by (simp add: and_then_def)
      with 1 2 show ?thesis
        using connection_tokens_append [of cs1 cs2] by (intro exI [of _ "cs1 @ cs2"]) simp
    qed
  qed
qed

lemma no_connection_sdk:
  assumes c: "connection_tokens [c] = []" and body: "no_connection body"
  shows "no_connection (sdk c body)"
  unfolding no_connection_def
proof
  fix w :: world
  let ?w' = "w\<lparr>calls := calls w @ [c]\<rparr>"
  from body obtain cs where
    1: "calls (snd (body ?w')) = calls ?w' @ cs" "connection_tokens cs = []"
    unfolding no_connection_def by blast
  show "\<exists>cs. calls (snd (sdk c body w)) = calls w @ cs \<and> connection_tokens cs = []"
  proof (cases "faults w c")
    case None
    with 1 have "calls (snd (sdk c body w)) = calls w @ ([c] @ cs)"
      by (simp add: sdk_def)
    with 1 c show ?thesis
      using connection_tokens_append [of "[c]" cs] by (intro exI [of _ "[c] @ cs"]) simp
  next
    case (Some e)
    then have "calls (snd (sdk c body w)) = calls w @ [c]"
      by (simp add: sdk_def)
    with c show ?thesis by blast
  qed
qed

lemma no_connection_pure:
  assumes "\<And>w. calls (snd (body w)) = calls w"
  shows "no_connection body"
  unfolding no_connection_def
  using assms by (intro allI exI [of _ "[]"]) (simp add: connection_tokens_def)

lemma no_connection_lookup_task: "no_connection (lookup_task uuid)"
  by (rule no_connection_pure) (simp add: lookup_task_def split: option.splits)

lemma no_connection_conn_tasks: "no_connection (conn_tasks conn)"
  unfolding conn_tasks_def
  by (rule no_connection_sdk) (simp_all add: connection_tokens_def no_connection_pure)

lemma no_connection_retrieve_task: "no_connection (retrieve_task conn uuid)"
  unfolding retrieve_task_def
  by (rule no_connection_sdk) (simp_all add: connection_tokens_def no_connection_lookup_task)

lemma no_connection_task_update: "no_connection (task_update t flushcache)"
  unfolding task_update_def
  by (rule no_connection_sdk) (simp_all add: connection_tokens_def no_connection_lookup_task)

lemma no_connection_stdout:
  "no_connection (if instance_id \<noteq> None then task_stdout_of t (the instance_id) else task_stdout t)"
  unfolding stdout_dispatch
  by (rule no_connection_sdk) (simp_all add: connection_tokens_def no_connection_return)

lemma no_connection_stderr:
  "no_connection (if instance_id \<noteq> None then task_stderr_of t (the instance_id) else task_stderr t)"
  unfolding stderr_dispatch
  by (rule no_connection_sdk) (simp_all add: connection_tokens_def no_connection_return)

lemma no_connection_task_abort: "no_connection (task_abort t)"
  unfolding task_abort_def
  by (rule no_connection_sdk) (simp_all add: connection_tokens_def no_connection_pure)

lemma no_connection_conn_buckets: "no_connection (conn_buckets conn)"
  unfolding conn_buckets_def
  by (rule no_connection_sdk) (simp_all add: connection_tokens_def no_connection_pure)

lemma no_connection_retrieve_bucket: "no_connection (retrieve_bucket conn bucket_name)"
  unfolding retrieve_bucket_def
  by (rule no_connection_sdk)
    (simp_all add: connection_tokens_def no_connection_pure split: option.splits)

lemma no_connection_list_files: "no_connection (bucket_list_files b)"
  unfolding bucket_list_files_def
  by (rule no_connection_sdk) (simp_all add: connection_tokens_def no_connection_return)

lemma no_connection_get_file: "no_connection (bucket_get_file b remote local)"
  unfolding bucket_get_file_def
  by (rule no_connection_sdk)
    (simp_all add: connection_tokens_def no_connection_pure split: option.splits)

lemmas no_connection_intros =
  no_connection_and_then no_connection_return no_connection_raise no_connection_conn_tasks
  no_connection_retrieve_task no_connection_task_update no_connection_stdout
  no_connection_stderr no_connection_task_abort no_connection_conn_buckets
  no_connection_retrieve_bucket no_connection_list_files no_connection_get_file

text \<open>A tool body run after \<open>get_connection\<close> constructs exactly one connection.\<close>

lemma one_connection:
  assumes rest: "\<And>conn. no_connection (rest conn)"
  shows "\<exists>cs. calls (snd (and_then (get_connection srv) rest w)) = calls w @ cs
            \<and> connection_tokens cs = [QARNOT_TOKEN srv]"
proof (cases "faults w (Connection (QARNOT_TOKEN srv))")
  case None
  let ?w1 = "w\<lparr>calls := calls w @ [Connection (QARNOT_TOKEN srv)]\<rparr>"
  let ?conn = "\<lparr>client_token = QARNOT_TOKEN srv\<rparr>"
  from rest [of ?conn] obtain cs where
    1: "calls (snd (rest ?conn ?w1)) = calls ?w1 @ cs" "connection_tokens cs = []"
    unfolding no_connection_def by blast
  have "calls (snd (and_then (get_connection srv) rest w))
          = calls w @ (Connection (QARNOT_TOKEN srv) # cs)"
    using 1 by (simp add: and_then_def get_connection_ok [OF None])
  moreover have "connection_tokens (Connection (QARNOT_TOKEN srv) # cs) = [QARNOT_TOKEN srv]"
    using 1 connection_tokens_append [of "[Connection (QARNOT_TOKEN srv)]" cs]
    by (simp add: connection_tokens_def)
  ultimately show ?thesis by blast
next
  case (Some e)
  have "calls (snd (and_then (get_connection srv) rest w))
          = calls w @ [Connection (QARNOT_TOKEN srv)]"
    using Some by (simp add: and_then_def get_connection_def Connection_init_def sdk_fault)
  moreover have "connection_tokens [Connection (QARNOT_TOKEN srv)] = [QARNOT_TOKEN srv]"
    by (simp add: connection_tokens_def)
  ultimately show ?thesis by blast
qed

lemma call_tool_one_connection:
  "\<exists>cs. calls (snd (call_tool srv c w)) = calls w @ cs
        \<and> connection_tokens cs = [QARNOT_TOKEN srv]"
proof (cases c)
  case List_tasks
  show ?thesis
    unfolding List_tasks call_tool.simps list_tasks_def
    by (rule one_connection) (intro no_connection_intros)
next
  case (Get_task_status uuid)
  show ?thesis
    unfolding Get_task_status call_tool.simps get_task_status_def
    by (rule one_connection) (auto intro!: no_connection_intros split: sum.splits)
next
  case (Get_task_stdout uuid instance_id)
  show ?thesis
    unfolding Get_task_stdout call_tool.simps get_task_stdout_def
    by (rule one_connection) (intro no_connection_intros)
next
  case (Get_task_stderr uuid instance_id)
  show ?thesis
    unfolding Get_task_stderr call_tool.simps get_task_stderr_def
    by (rule one_connection) (intro no_connection_intros)
next
  case (Cancel_task uuid)
  show ?thesis
    unfolding Cancel_task call_tool.simps cancel_task_def
    by (rule one_connection) (auto intro!: no_connection_intros)
next
  case List_buckets
  show ?thesis
    unfolding List_buckets call_tool.simps list_buckets_def
    by (rule one_connection) (auto intro!: no_connection_intros simp: Let_def)
next
  case (List_bucket_files bucket_name)
  show ?thesis
    unfolding List_bucket_files call_tool.simps list_bucket_files_def
    by (rule one_connection) (auto intro!: no_connection_intros simp: Let_def)
next
  case (Download_result bucket_name remote_path local_path)
  show ?thesis
    unfolding Download_result call_tool.simps download_result_def
    by (rule one_connection) (intro no_connection_intros)
qed

lemma serve_connections:
  "\<exists>cs. calls (snd (serve srv requests w)) = calls w @ cs
        \<and> connection_tokens cs = replicate (length requests) (QARNOT_TOKEN srv)
        \<and> length (fst (serve srv requests w)) = length requests"
proof (induction requests arbitrary: w)
  case Nil
  show ?case by (simp add: connection_tokens_def)
next
  case (Cons c requests)
  obtain r w' where step: "call_tool srv c w = (r, w')"
    by (cases "call_tool srv c w")
  from call_tool_one_connection [of srv c w] step obtain cs1 where
    1: "calls w' = calls w @ cs1" "connection_tokens cs1 = [QARNOT_TOKEN srv]"
    by auto
  obtain rs w'' where rest: "serve srv requests w' = (rs, w'')"
    by (cases "serve srv requests w'")
  from Cons.IH [of w'] rest obtain cs2 where
    2: "calls w'' = calls w' @ cs2"
       "connection_tokens cs2 = replicate (length requests) (QARNOT_TOKEN srv)"
       "length rs = length requests"
    by auto
  have "calls (snd (serve srv (c # requests) w)) = calls w @ (cs1 @ cs2)"
    using step rest 1 2 by simp
  moreover have "connection_tokens (cs1 @ cs2)
                   = replicate (length (c # requests)) (QARNOT_TOKEN srv)"
    using 1 2 by (simp add: connection_tokens_append)
  moreover have "length (fst (serve srv (c # requests) w)) = length (c # requests)"
    using step rest 2 by simp
  ultimately show ?case by blast
qed

lemma startup_cases:
  "startup dotenv environ =
     (case load_dotenv dotenv environ ''QARNOT_TOKEN'' of
        None \<Rightarrow> Inl (ValueError ''QARNOT_TOKEN environment variable is required'')
      | Some token \<Rightarrow>
          if token = [] then Inl (ValueError ''QARNOT_TOKEN environment variable is required'')
          else Inr \<lparr>QARNOT_TOKEN = token\<rparr>)"
  by (simp add: startup_def)

lemma load_dotenv_lookup:
  "load_dotenv dotenv environ k = (case environ k of None \<Rightarrow> dotenv k | Some v \<Rightarrow> Some v)"
  by (simp add: load_dotenv_def map_add_def)

text \<open>
  Claim C8, as the code has it. The token is looked up after \<open>load_dotenv()\<close> has added
  the variables of the \<open>.env\<close> file to the environment, keeping the variables already
  set. If it is then absent or empty, the module raises ValueError("QARNOT_TOKEN
  environment variable is required") and the process ends having answered no tool call
  and made no SDK call. If it is then present and not empty, startup succeeds, every tool
  call is answered, and each of them constructs one connection, from that token. A
  non-empty variable of the environment is the token whatever the \<open>.env\<close> file says; an
  empty one fails startup; one that is absent leaves the choice to the \<open>.env\<close> file.
\<close>

theorem startup_credential:
  "(load_dotenv dotenv environ ''QARNOT_TOKEN'' = None
      \<or> load_dotenv dotenv environ ''QARNOT_TOKEN'' = Some [] \<longrightarrow>
        startup dotenv environ
          = Inl (ValueError ''QARNOT_TOKEN environment variable is required'')
      \<and> main dotenv environ requests w
          = (Inl (ValueError ''QARNOT_TOKEN environment variable is required''), w))
   \<and> (load_dotenv dotenv environ ''QARNOT_TOKEN'' = Some token \<and> token \<noteq> [] \<longrightarrow>
        startup dotenv environ = Inr \<lparr>QARNOT_TOKEN = token\<rparr>
      \<and> (\<exists>answers w' cs.
            main dotenv environ requests w = (Inr answers, w')
          \<and> length answers = length requests
          \<and> calls w' = calls w @ cs
          \<and> connection_tokens cs = replicate (length requests) token))
   \<and> (environ ''QARNOT_TOKEN'' = Some token \<and> token \<noteq> [] \<longrightarrow>
        startup dotenv environ = Inr \<lparr>QARNOT_TOKEN = token\<rparr>)
   \<and> (environ ''QARNOT_TOKEN'' = Some [] \<longrightarrow>
        startup dotenv environ
          = Inl (ValueError ''QARNOT_TOKEN environment variable is required''))
   \<and> (environ ''QARNOT_TOKEN'' = None \<longrightarrow>
        load_dotenv dotenv environ ''QARNOT_TOKEN'' = dotenv ''QARNOT_TOKEN'')"
proof -
  have absent: "load_dotenv dotenv environ ''QARNOT_TOKEN'' = None
      \<or> load_dotenv dotenv environ ''QARNOT_TOKEN'' = Some [] \<longrightarrow>
        startup dotenv environ
          = Inl (ValueError ''QARNOT_TOKEN environment variable is required'')
      \<and> main dotenv environ requests w
          = (Inl (ValueError ''QARNOT_TOKEN environment variable is required''), w)"
    by (auto simp: main_def startup_cases)
  have present: "load_dotenv dotenv environ ''QARNOT_TOKEN'' = Some token \<and> token \<noteq> [] \<longrightarrow>
        startup dotenv environ = Inr \<lparr>QARNOT_TOKEN = token\<rparr>
      \<and> (\<exists>answers w' cs.
            main dotenv environ requests w = (Inr answers, w')
          \<and> length answers = length requests
          \<and> calls w' = calls w @ cs
          \<and> connection_tokens cs = replicate (length requests) token)"
  proof
    assume tok: "load_dotenv dotenv environ ''QARNOT_TOKEN'' = Some token \<and> token \<noteq> []"
    then have st: "startup dotenv environ = Inr \<lparr>QARNOT_TOKEN = token\<rparr>"
      by (simp add: startup_cases)
    obtain answers w' where sv: "serve \<lparr>QARNOT_TOKEN = token\<rparr> requests w = (answers, w')"
      by (cases "serve \<lparr>QARNOT_TOKEN = token\<rparr> requests w")
    from serve_connections [of "\<lparr>QARNOT_TOKEN = token\<rparr>" requests w] sv obtain cs where
      "calls w' = calls w @ cs" "connection_tokens cs = replicate (length requests) token"
      "length answers = length requests"
      by auto
    moreover have "main dotenv environ requests w = (Inr answers, w')"
      by (simp add: main_def st sv)
    ultimately show "startup dotenv environ = Inr \<lparr>QARNOT_TOKEN = token\<rparr>
      \<and> (\<exists>answers w' cs.
            main dotenv environ requests w = (Inr answers, w')
          \<and> length answers = length requests
          \<and> calls w' = calls w @ cs
          \<and> connection_tokens cs = replicate (length requests) token)"
      using st by blast
  qed
  have env: "(environ ''QARNOT_TOKEN'' = Some token \<and> token \<noteq> [] \<longrightarrow>
        startup dotenv environ = Inr \<lparr>QARNOT_TOKEN = token\<rparr>)
   \<and> (environ ''QARNOT_TOKEN'' = Some [] \<longrightarrow>
        startup dotenv environ
          = Inl (ValueError ''QARNOT_TOKEN environment variable is required''))
   \<and> (environ ''QARNOT_TOKEN'' = None \<longrightarrow>
        load_dotenv dotenv environ ''QARNOT_TOKEN'' = dotenv ''QARNOT_TOKEN'')"
    by (simp add: startup_cases load_dotenv_lookup)
  show ?thesis
    using absent present env by blast
qed

text \<open>
  No token anywhere: startup raises and a pending call is not answered. The token in the
  environment and another in the \<open>.env\<close> file: the call is answered over a connection
  built from the token of the environment.
\<close>

theorem startup_credential_witness:
  "main empty_environ empty_environ [List_buckets] example_world
     = (Inl (ValueError ''QARNOT_TOKEN environment variable is required''), example_world)
   \<and> startup example_dotenv example_environ = Inr \<lparr>QARNOT_TOKEN = ''secret''\<rparr>
   \<and> (\<exists>answers w'. main example_dotenv example_environ [List_buckets] example_world = (Inr answers, w')
         \<and> length answers = 1
         \<and> connection_tokens (calls w') = [''secret''])"
proof -
  have none: "load_dotenv empty_environ empty_environ ''QARNOT_TOKEN'' = None"
    by (simp add: load_dotenv_lookup empty_environ_def)
  have some: "load_dotenv example_dotenv example_environ ''QARNOT_TOKEN'' = Some ''secret''"
    by (simp add: load_dotenv_lookup example_environ_def)
  have a: "main empty_environ empty_environ [List_buckets] example_world
     = (Inl (ValueError ''QARNOT_TOKEN environment variable is required''), example_world)"
    using startup_credential [of empty_environ empty_environ "[List_buckets]" example_world] none
    by simp
  from startup_credential [of example_dotenv example_environ "[List_buckets]" example_world "''secret''"]
    some
  have st: "startup example_dotenv example_environ = Inr \<lparr>QARNOT_TOKEN = ''secret''\<rparr>"
    and "\<exists>answers w' cs.
            main example_dotenv example_environ [List_buckets] example_world = (Inr answers, w')
          \<and> length answers = length [List_buckets]
          \<and> calls w' = calls example_world @ cs
          \<and> connection_tokens cs = replicate (length [List_buckets]) ''secret''"
    by simp_all
  then obtain answers w' cs where
    m: "main example_dotenv example_environ [List_buckets] example_world = (Inr answers, w')"
    and l: "length answers = 1"
    and c: "calls w' = calls example_world @ cs"
    and t: "connection_tokens cs = [''secret'']"
    by auto
  have "connection_tokens (calls w') = [''secret'']"
    using c t by (simp add: example_world_def)
  with m l have "\<exists>answers w'. main example_dotenv example_environ [List_buckets] example_world = (Inr answers, w')
         \<and> length answers = 1
         \<and> connection_tokens (calls w') = [''secret'']"
    by blast
  with a st show ?thesis by blast
qed

text \<open>
  The variable is absent from the process environment and the \<open>.env\<close> file has it:
  startup does not fail, and the server holds the token of the file.
\<close>

theorem startup_absent_variable_counterexample:
  "empty_environ ''QARNOT_TOKEN'' = None
   \<and> \<not> isl (startup example_dotenv empty_environ)
   \<and> startup example_dotenv empty_environ = Inr \<lparr>QARNOT_TOKEN = ''from-file''\<rparr>"
  by (simp add: startup_cases load_dotenv_lookup empty_environ_def example_dotenv_def)

end
